theory Spec2Isabelle
  imports Main
begin

section \<open>Python values, exceptions and the operations the handler uses\<close>

text \<open>
  The program is \<^verbatim>\<open>lambda/index.py\<close>: one AWS Lambda handler that relays a chat
  message to a text-generation endpoint. It is dynamically typed, and what it does on
  a value of the wrong shape (an exception, caught at the top of the handler) is part
  of its behaviour, so values are modelled as they are at run time.

  A value is what \<^verbatim>\<open>json.loads\<close> can produce. A \<^verbatim>\<open>str\<close> is held as the bytes
  of its UTF-8 encoding: the program concatenates strings, compares them with ASCII
  literals and searches them for ASCII text, and all of that agrees on the encoding.
  A \<^verbatim>\<open>float\<close> is held as the decimal text Python prints for it; the program does
  no arithmetic on floats. A \<^verbatim>\<open>dict\<close> is an association list in insertion order,
  looked up with \<open>map_of\<close>.
\<close>

datatype pyval =
    PNone
  | PBool bool
  | PInt int
  | PFloat string
  | PStr string
  | PList "pyval list"
  | PDict "(string \<times> pyval) list"

text \<open>
  An exception is an instance of a subclass of \<^verbatim>\<open>Exception\<close>: its class and the
  text \<^verbatim>\<open>str(error)\<close> gives. \<open>HTTPError\<close> is the class \<^verbatim>\<open>urlopen\<close> raises for a
  status it does not accept; \<open>LibraryError\<close> stands for the other classes the libraries
  raise (\<^verbatim>\<open>JSONDecodeError\<close>, \<^verbatim>\<open>URLError\<close>, botocore's errors). The texts of the
  interpreter's own \<^verbatim>\<open>TypeError\<close> and \<^verbatim>\<open>AttributeError\<close> follow CPython 3.12.
\<close>

datatype exn_class =
  KeyError | TypeError | AttributeError | Exception | HTTPError | LibraryError

datatype exn = Exn exn_class string

fun str_exn :: "exn \<Rightarrow> string" where
  "str_exn (Exn c m) = m"

fun type_name :: "pyval \<Rightarrow> string" where
  "type_name PNone = ''NoneType''"
| "type_name (PBool b) = ''bool''"
| "type_name (PInt i) = ''int''"
| "type_name (PFloat f) = ''float''"
| "type_name (PStr s) = ''str''"
| "type_name (PList xs) = ''list''"
| "type_name (PDict kvs) = ''dict''"

definition quoted :: "string \<Rightarrow> string" where
  \<comment> \<open>\<^verbatim>\<open>repr\<close> of a string with no quote, backslash or control character, as every
      key and type name of this program is.\<close>
  "quoted s = [CHR 0x27] @ s @ [CHR 0x27]"

fun str_nat :: "nat \<Rightarrow> string" where
  "str_nat n =
     (if n < 10 then [''0123456789'' ! n]
      else str_nat (n div 10) @ [''0123456789'' ! (n mod 10)])"

declare str_nat.simps [simp del]

definition str_int :: "int \<Rightarrow> string" where
  \<comment> \<open>An \<^verbatim>\<open>int\<close> formatted by an f-string.\<close>
  "str_int i = (if i < 0 then ''-'' @ str_nat (nat (- i)) else str_nat (nat i))"

definition startswith :: "string \<Rightarrow> string \<Rightarrow> bool" where
  "startswith p s = (take (length p) s = p)"

definition substring_of :: "string \<Rightarrow> string \<Rightarrow> bool" where
  "substring_of p s = list_ex (\<lambda>i. startswith p (drop i s)) [0..<Suc (length s)]"

definition py_in :: "string \<Rightarrow> pyval \<Rightarrow> exn + bool" where
  \<comment> \<open>\<^verbatim>\<open>key in v\<close> for a \<^verbatim>\<open>str\<close> key.\<close>
  "py_in k v =
     (case v of
        PDict kvs \<Rightarrow> Inr (map_of kvs k \<noteq> None)
      | PList xs \<Rightarrow> Inr (PStr k \<in> set xs)
      | PStr s \<Rightarrow> Inr (substring_of k s)
      | _ \<Rightarrow> Inl (Exn TypeError
                (''argument of type '' @ quoted (type_name v) @ '' is not iterable'')))"

definition py_getitem :: "pyval \<Rightarrow> string \<Rightarrow> exn + pyval" where
  \<comment> \<open>\<^verbatim>\<open>v[key]\<close> for a \<^verbatim>\<open>str\<close> key.\<close>
  "py_getitem v k =
     (case v of
        PDict kvs \<Rightarrow>
          (case map_of kvs k of
             None \<Rightarrow> Inl (Exn KeyError (quoted k))
           | Some x \<Rightarrow> Inr x)
      | PList xs \<Rightarrow> Inl (Exn TypeError ''list indices must be integers or slices, not str'')
      | PStr s \<Rightarrow> Inl (Exn TypeError (''string indices must be integers, not '' @ quoted ''str''))
      | _ \<Rightarrow> Inl (Exn TypeError (quoted (type_name v) @ '' object is not subscriptable'')))"

definition no_attribute :: "pyval \<Rightarrow> string \<Rightarrow> exn" where
  "no_attribute v a =
     Exn AttributeError (quoted (type_name v) @ '' object has no attribute '' @ quoted a)"

definition py_get :: "pyval \<Rightarrow> string \<Rightarrow> pyval \<Rightarrow> exn + pyval" where
  \<comment> \<open>\<^verbatim>\<open>v.get(key, default)\<close>: only a \<^verbatim>\<open>dict\<close> has the method.\<close>
  "py_get v k d =
     (case v of
        PDict kvs \<Rightarrow> Inr (case map_of kvs k of None \<Rightarrow> d | Some x \<Rightarrow> x)
      | _ \<Rightarrow> Inl (no_attribute v ''get''))"

definition py_iter :: "pyval \<Rightarrow> exn + pyval list" where
  \<comment> \<open>The items a \<^verbatim>\<open>for\<close> loop or a comprehension draws from \<open>v\<close>: the elements of
      a list, the one-character strings of a string, the keys of a dict.\<close>
  "py_iter v =
     (case v of
        PList xs \<Rightarrow> Inr xs
      | PStr s \<Rightarrow> Inr (map (\<lambda>c. PStr [c]) s)
      | PDict kvs \<Rightarrow> Inr (map (\<lambda>kv. PStr (fst kv)) kvs)
      | _ \<Rightarrow> Inl (Exn TypeError (quoted (type_name v) @ '' object is not iterable'')))"

definition py_copy :: "pyval \<Rightarrow> exn + pyval" where
  \<comment> \<open>\<^verbatim>\<open>v.copy()\<close>: lists and dicts have the method.\<close>
  "py_copy v =
     (case v of
        PList xs \<Rightarrow> Inr (PList xs)
      | PDict kvs \<Rightarrow> Inr (PDict kvs)
      | _ \<Rightarrow> Inl (no_attribute v ''copy''))"

definition py_append :: "pyval \<Rightarrow> pyval \<Rightarrow> exn + pyval" where
  \<comment> \<open>\<^verbatim>\<open>v.append(x)\<close>, returning the list as it is afterwards.\<close>
  "py_append v x =
     (case v of
        PList xs \<Rightarrow> Inr (PList (xs @ [x]))
      | _ \<Rightarrow> Inl (no_attribute v ''append''))"

fun join_from :: "nat \<Rightarrow> pyval list \<Rightarrow> exn + string" where
  "join_from i [] = Inr []"
| "join_from i (v # vs) =
     (case v of
        PStr s \<Rightarrow> (case join_from (Suc i) vs of Inl e \<Rightarrow> Inl e | Inr r \<Rightarrow> Inr (s @ r))
      | _ \<Rightarrow> Inl (Exn TypeError (''sequence item '' @ str_nat i @ '': expected str instance, ''
                  @ type_name v @ '' found'')))"

definition py_join_empty :: "pyval list \<Rightarrow> exn + string" where
  \<comment> \<open>\<^verbatim>\<open>"".join(texts)\<close>: every item has to be a \<^verbatim>\<open>str\<close>.\<close>
  "py_join_empty texts = join_from 0 texts"

fun join_str :: "string \<Rightarrow> string list \<Rightarrow> string" where
  \<comment> \<open>\<^verbatim>\<open>sep.join(lines)\<close> for a list of strings.\<close>
  "join_str sep [] = []"
| "join_str sep [l] = l"
| "join_str sep (l # m # ls) = l @ sep @ join_str sep (m # ls)"

definition py_isspace :: "char \<Rightarrow> bool" where
  \<comment> \<open>The ASCII characters \<^verbatim>\<open>str.isspace\<close> accepts.\<close>
  "py_isspace c =
     (c \<in> set [CHR 0x09, CHR 0x0A, CHR 0x0B, CHR 0x0C, CHR 0x0D,
               CHR 0x1C, CHR 0x1D, CHR 0x1E, CHR 0x1F, CHR 0x20])"

definition rstrip :: "string \<Rightarrow> string" where
  \<comment> \<open>\<^verbatim>\<open>s.rstrip()\<close>, for a string that does not end in whitespace beyond ASCII.\<close>
  "rstrip s = rev (dropWhile py_isspace (rev s))"

definition rstrip_chars :: "string \<Rightarrow> string \<Rightarrow> string" where
  \<comment> \<open>\<^verbatim>\<open>s.rstrip(cs)\<close>.\<close>
  "rstrip_chars cs s = rev (dropWhile (\<lambda>c. c \<in> set cs) (rev s))"

fun mapE :: "('a \<Rightarrow> exn + 'b) \<Rightarrow> 'a list \<Rightarrow> exn + 'b list" where
  \<comment> \<open>A comprehension whose body may raise: the first exception ends it.\<close>
  "mapE f [] = Inr []"
| "mapE f (x # xs) =
     (case f x of
        Inl e \<Rightarrow> Inl e
      | Inr y \<Rightarrow> (case mapE f xs of Inl e \<Rightarrow> Inl e | Inr ys \<Rightarrow> Inr (y # ys)))"

section \<open>Constants of the module\<close>

text \<open>
  The Japanese literals of the source are written as their UTF-8 bytes. \<open>user_label\<close>
  and \<open>assistant_label\<close> are the two role names of \<^verbatim>\<open>build_prompt\<close>;
  \<open>preamble_line1\<close> and \<open>preamble_line2\<close> are the two sentences of
  \<^verbatim>\<open>SYSTEM_PROMPT\<close>, each followed there by a newline.
\<close>

definition newline :: string where
  "newline = [CHR 0x0A]"

definition user_label :: string where
  "user_label =
     [CHR 0xE3, CHR 0x83, CHR 0xA6, CHR 0xE3, CHR 0x83, CHR 0xBC, CHR 0xE3, CHR 0x82,
      CHR 0xB6]"

definition assistant_label :: string where
  "assistant_label =
     [CHR 0xE3, CHR 0x82, CHR 0xA2, CHR 0xE3, CHR 0x82, CHR 0xB7, CHR 0xE3, CHR 0x82,
      CHR 0xB9, CHR 0xE3, CHR 0x82, CHR 0xBF, CHR 0xE3, CHR 0x83, CHR 0xB3, CHR 0xE3,
      CHR 0x83, CHR 0x88]"

definition preamble_line1 :: string where
  "preamble_line1 =
     [CHR 0xE4, CHR 0xBB, CHR 0xA5, CHR 0xE4, CHR 0xB8, CHR 0x8B, CHR 0xE3, CHR 0x81,
      CHR 0xAF, CHR 0xE4, CHR 0xBC, CHR 0x9A, CHR 0xE8, CHR 0xA9, CHR 0xB1, CHR 0xE3,
      CHR 0x81, CHR 0xAE, CHR 0xE5, CHR 0xB1, CHR 0xA5, CHR 0xE6, CHR 0xAD, CHR 0xB4,
      CHR 0xE3, CHR 0x81, CHR 0xA7, CHR 0xE3, CHR 0x81, CHR 0x99, CHR 0xE3, CHR 0x80,
      CHR 0x82, CHR 0xE3, CHR 0x81, CHR 0x82, CHR 0xE3, CHR 0x81, CHR 0x8F, CHR 0xE3,
      CHR 0x81, CHR 0xBE, CHR 0xE3, CHR 0x81, CHR 0xA7, CHR 0xE3, CHR 0x82, CHR 0xB3,
      CHR 0xE3, CHR 0x83, CHR 0xB3, CHR 0xE3, CHR 0x83, CHR 0x86, CHR 0xE3, CHR 0x82,
      CHR 0xAD, CHR 0xE3, CHR 0x82, CHR 0xB9, CHR 0xE3, CHR 0x83, CHR 0x88, CHR 0xE3,
      CHR 0x81, CHR 0xAE, CHR 0xE5, CHR 0x8F, CHR 0x82, CHR 0xE7, CHR 0x85, CHR 0xA7,
      CHR 0xE7, CHR 0x94, CHR 0xA8, CHR 0xE3, CHR 0x81, CHR 0xA7, CHR 0xE3, CHR 0x81,
      CHR 0x99, CHR 0xE3, CHR 0x80, CHR 0x82]"

definition preamble_line2 :: string where
  "preamble_line2 =
     [CHR 0xE3, CHR 0x81, CHR 0x93, CHR 0xE3, CHR 0x82, CHR 0x8C, CHR 0xE3, CHR 0x82,
      CHR 0x89, CHR 0xE3, CHR 0x82, CHR 0x92, CHR 0xE5, CHR 0x87, CHR 0xBA, CHR 0xE5,
      CHR 0x8A, CHR 0x9B, CHR 0xE3, CHR 0x81, CHR 0xAB, CHR 0xE5, CHR 0x90, CHR 0xAB,
      CHR 0xE3, CHR 0x82, CHR 0x81, CHR 0xE3, CHR 0x81, CHR 0x9A, CHR 0xE3, CHR 0x80,
      CHR 0x81, CHR 0xE5, CHR 0xBF, CHR 0x85, CHR 0xE3, CHR 0x81, CHR 0x9A, CHR 0xE3,
      CHR 0x80, CHR 0x8C, CHR 0xE3, CHR 0x82, CHR 0xA2, CHR 0xE3, CHR 0x82, CHR 0xB7,
      CHR 0xE3, CHR 0x82, CHR 0xB9, CHR 0xE3, CHR 0x82, CHR 0xBF, CHR 0xE3, CHR 0x83,
      CHR 0xB3, CHR 0xE3, CHR 0x83, CHR 0x88, CHR 0x3A, CHR 0x20, CHR 0xE3, CHR 0x80,
      CHR 0x8D, CHR 0xE4, CHR 0xBB, CHR 0xA5, CHR 0xE9, CHR 0x99, CHR 0x8D, CHR 0xE3,
      CHR 0x81, CHR 0xAE, CHR 0xE5, CHR 0xBF, CHR 0x9C, CHR 0xE7, CHR 0xAD, CHR 0x94,
      CHR 0xE3, CHR 0x81, CHR 0xAE, CHR 0xE3, CHR 0x81, CHR 0xBF, CHR 0xE3, CHR 0x82,
      CHR 0x92, CHR 0xE8, CHR 0xBF, CHR 0x94, CHR 0xE3, CHR 0x81, CHR 0x97, CHR 0xE3,
      CHR 0x81, CHR 0xA6, CHR 0xE3, CHR 0x81, CHR 0x8F, CHR 0xE3, CHR 0x81, CHR 0xA0,
      CHR 0xE3, CHR 0x81, CHR 0x95, CHR 0xE3, CHR 0x81, CHR 0x84, CHR 0xE3, CHR 0x80,
      CHR 0x82]"

definition SYSTEM_PROMPT :: string where
  "SYSTEM_PROMPT = preamble_line1 @ newline @ preamble_line2 @ newline"

definition API_URL :: string where
  "API_URL = rstrip_chars ''/'' ''https://a814-35-196-164-95.ngrok-free.app/''"

section \<open>The region of an ARN\<close>

text \<open>
  \<^verbatim>\<open>re.search('arn:aws:lambda:([^:]+):', arn)\<close>. The pattern is data: literal
  characters and one capturing group of one or more characters outside a set. The
  matcher is the backtracking one of \<^verbatim>\<open>re\<close>: \<open>search\<close> tries every start from the
  left, and the greedy group takes the longest run first and gives characters back
  one at a time while the rest of the pattern does not match.
\<close>

datatype rx = Lit char | GroupPlusNot "char list"

fun try_lengths ::
  "(string \<Rightarrow> string list option) \<Rightarrow> string \<Rightarrow> nat \<Rightarrow> string list option" where
  "try_lengths k s 0 = None"
| "try_lengths k s (Suc n) =
     (case k (drop (Suc n) s) of
        Some caps \<Rightarrow> Some (take (Suc n) s # caps)
      | None \<Rightarrow> try_lengths k s n)"

fun match_here :: "rx list \<Rightarrow> string \<Rightarrow> string list option" where
  "match_here [] s = Some []"
| "match_here (Lit c # r) s =
     (case s of
        [] \<Rightarrow> None
      | x # xs \<Rightarrow> if x = c then match_here r xs else None)"
| "match_here (GroupPlusNot cs # r) s =
     try_lengths (\<lambda>t. match_here r t) s (length (takeWhile (\<lambda>x. x \<notin> set cs) s))"

fun search :: "rx list \<Rightarrow> string \<Rightarrow> string list option" where
  "search p [] = match_here p []"
| "search p (x # xs) =
     (case match_here p (x # xs) of
        Some caps \<Rightarrow> Some caps
      | None \<Rightarrow> search p xs)"

definition ARN_PATTERN :: "rx list" where
  "ARN_PATTERN = map Lit ''arn:aws:lambda:'' @ [GroupPlusNot '':'', Lit (CHR '':'')]"

definition extract_region_from_arn :: "string \<Rightarrow> string" where
  \<comment> \<open>\<^verbatim>\<open>match.group(1)\<close> is the first capture; the pattern has exactly one group.\<close>
  "extract_region_from_arn arn =
     (case search ARN_PATTERN arn of
        Some (g # gs) \<Rightarrow> g
      | _ \<Rightarrow> ''us-east-1'')"

section \<open>Building the prompt\<close>

definition turn_line :: "pyval \<Rightarrow> exn + string" where
  \<comment> \<open>The body of the loop of \<^verbatim>\<open>build_prompt\<close>: the line of one message.\<close>
  "turn_line msg =
     (case py_get msg ''role'' PNone of
        Inl e \<Rightarrow> Inl e
      | Inr r \<Rightarrow>
     (case py_get msg ''content'' (PList []) of
        Inl e \<Rightarrow> Inl e
      | Inr content \<Rightarrow>
     (case py_iter content of
        Inl e \<Rightarrow> Inl e
      | Inr cs \<Rightarrow>
     (case mapE (\<lambda>c. py_get c ''text'' (PStr [])) cs of
        Inl e \<Rightarrow> Inl e
      | Inr texts \<Rightarrow>
     (case py_join_empty texts of
        Inl e \<Rightarrow> Inl e
      | Inr content_str \<Rightarrow>
          Inr ((if r = PStr ''user'' then user_label else assistant_label)
               @ '': '' @ content_str))))))"

fun build_lines :: "pyval list \<Rightarrow> string list \<Rightarrow> exn + string list" where
  \<comment> \<open>The loop: \<open>lines\<close> grows by one line per message.\<close>
  "build_lines [] lines = Inr lines"
| "build_lines (msg # rest) lines =
     (case turn_line msg of
        Inl e \<Rightarrow> Inl e
      | Inr l \<Rightarrow> build_lines rest (lines @ [l]))"

definition build_prompt :: "pyval \<Rightarrow> exn + string" where
  "build_prompt messages =
     (case py_iter messages of
        Inl e \<Rightarrow> Inl e
      | Inr msgs \<Rightarrow>
     (case build_lines msgs [rstrip SYSTEM_PROMPT] of
        Inl e \<Rightarrow> Inl e
      | Inr lines \<Rightarrow> Inr (join_str newline (lines @ [assistant_label @ '': '']))))"

section \<open>The environment and the state of the process\<close>

text \<open>
  The libraries the handler calls are parameters of the model: \<^verbatim>\<open>json.loads\<close>,
  \<^verbatim>\<open>json.dumps\<close> (total on the values of \<open>pyval\<close>), \<^verbatim>\<open>boto3.client\<close>, and the
  exchange with the endpoint that \<^verbatim>\<open>urllib.request.urlopen\<close> performs. Each of them
  either returns or raises. \<open>http_exchange\<close> gives the answer that ends the exchange (the
  one left once the library has followed the redirects it follows), with its status, its
  reason phrase and its body, or the exception of a failed connection. What
  \<^verbatim>\<open>urlopen\<close> does with the status of that answer is modelled below. The calls of
  \<^verbatim>\<open>print\<close> write to the log and change nothing else; they are left out, and so is
  \<^verbatim>\<open>MODEL_ID\<close>, which is only printed.
\<close>

record request =
  req_url :: string
  req_data :: string
  req_headers :: "(string \<times> string) list"
  req_method :: string

record http_response =
  status :: int
  reason :: string
  read :: "exn + string"

datatype client = Client string string

record env =
  json_loads :: "string \<Rightarrow> exn + pyval"
  json_dumps :: "pyval \<Rightarrow> string"
  http_exchange :: "request \<Rightarrow> exn + http_response"
  boto3_client :: "string \<Rightarrow> string \<Rightarrow> exn + client"

record lambda_context =
  invoked_function_arn :: string

text \<open>
  What outlives a call: the module's global \<^verbatim>\<open>bedrock_client\<close>, and the requests
  handed to \<^verbatim>\<open>urlopen\<close> so far, oldest first.
\<close>

record world =
  bedrock_client :: "client option"
  outbound :: "request list"

record response =
  statusCode :: int
  headers :: "(string \<times> string) list"
  body :: string

section \<open>The handler\<close>

definition urlopen :: "env \<Rightarrow> request \<Rightarrow> exn + http_response" where
  \<comment> \<open>\<^verbatim>\<open>urllib.request.urlopen\<close> with the default opener. Its \<^verbatim>\<open>HTTPErrorProcessor\<close>
      returns an answer whose status is from 200 to 299; for every other status
      \<^verbatim>\<open>HTTPDefaultErrorHandler\<close> raises \<^verbatim>\<open>HTTPError\<close>, whose text is
      \<^verbatim>\<open>'HTTP Error %s: %s' % (code, msg)\<close>.\<close>
  "urlopen env req =
     (case http_exchange env req of
        Inl e \<Rightarrow> Inl e
      | Inr resp \<Rightarrow>
          if 200 \<le> status resp \<and> status resp < 300 then Inr resp
          else Inl (Exn HTTPError
                 (''HTTP Error '' @ str_int (status resp) @ '': '' @ reason resp)))"

definition invoke_model :: "env \<Rightarrow> pyval \<Rightarrow> world \<Rightarrow> world \<times> (exn + pyval)" where
  \<comment> \<open>\<^verbatim>\<open>.encode('utf-8')\<close> changes nothing on a string held as its UTF-8 bytes.\<close>
  "invoke_model env payload w =
     (let data = json_dumps env payload;
          req = \<lparr>req_url = API_URL @ ''/generate'',
                 req_data = data,
                 req_headers = [(''Content-Type'', ''application/json'')],
                 req_method = ''POST''\<rparr>;
          w' = w\<lparr>outbound := outbound w @ [req]\<rparr>
      in case urlopen env req of
           Inl e \<Rightarrow> (w', Inl e)
         | Inr resp \<Rightarrow>
             if status resp \<noteq> 200
             then (w', Inl (Exn Exception (''API error: '' @ str_int (status resp))))
             else (case read resp of
                     Inl e \<Rightarrow> (w', Inl e)
                   | Inr s \<Rightarrow> (w', json_loads env s)))"

definition init_client :: "env \<Rightarrow> lambda_context \<Rightarrow> world \<Rightarrow> exn + world" where
  \<comment> \<open>Lines 62 to 66: the client is made on the first call that gets that far.\<close>
  "init_client env ctx w =
     (case bedrock_client w of
        Some c \<Rightarrow> Inr w
      | None \<Rightarrow>
          (case boto3_client env ''bedrock-runtime''
                  (extract_region_from_arn (invoked_function_arn ctx)) of
             Inl e \<Rightarrow> Inl e
           | Inr c \<Rightarrow> Inr (w\<lparr>bedrock_client := Some c\<rparr>)))"

definition get_user_info :: "pyval \<Rightarrow> exn + pyval" where
  \<comment> \<open>Lines 71 to 74. The name that is printed needs \<^verbatim>\<open>user_info.get\<close>; the second
      \<^verbatim>\<open>get\<close> of that line is on the same object and raises exactly when the first
      does.\<close>
  "get_user_info event =
     (case py_in ''requestContext'' event of
        Inl e \<Rightarrow> Inl e
      | Inr False \<Rightarrow> Inr PNone
      | Inr True \<Rightarrow>
     (case py_getitem event ''requestContext'' of
        Inl e \<Rightarrow> Inl e
      | Inr rc \<Rightarrow>
     (case py_in ''authorizer'' rc of
        Inl e \<Rightarrow> Inl e
      | Inr False \<Rightarrow> Inr PNone
      | Inr True \<Rightarrow>
     (case py_getitem rc ''authorizer'' of
        Inl e \<Rightarrow> Inl e
      | Inr a \<Rightarrow>
     (case py_getitem a ''claims'' of
        Inl e \<Rightarrow> Inl e
      | Inr user_info \<Rightarrow>
     (case py_get user_info ''email'' PNone of
        Inl e \<Rightarrow> Inl e
      | Inr name \<Rightarrow> Inr user_info))))))"

definition loads_value :: "env \<Rightarrow> pyval \<Rightarrow> exn + pyval" where
  \<comment> \<open>\<^verbatim>\<open>json.loads(v)\<close>: a \<^verbatim>\<open>TypeError\<close> unless \<open>v\<close> is a string.\<close>
  "loads_value env v =
     (case v of
        PStr s \<Rightarrow> json_loads env s
      | _ \<Rightarrow> Inl (Exn TypeError
                (''the JSON object must be str, bytes or bytearray, not '' @ type_name v)))"

definition request_messages :: "env \<Rightarrow> pyval \<Rightarrow> exn + pyval" where
  \<comment> \<open>Lines 77 to 91: the body, the message, the history and the list \<^verbatim>\<open>messages\<close>
      with the user's turn appended.\<close>
  "request_messages env event =
     (case py_getitem event ''body'' of
        Inl e \<Rightarrow> Inl e
      | Inr b \<Rightarrow>
     (case loads_value env b of
        Inl e \<Rightarrow> Inl e
      | Inr parsed \<Rightarrow>
     (case py_getitem parsed ''message'' of
        Inl e \<Rightarrow> Inl e
      | Inr message \<Rightarrow>
     (case py_get parsed ''conversationHistory'' (PList []) of
        Inl e \<Rightarrow> Inl e
      | Inr conversation_history \<Rightarrow>
     (case py_copy conversation_history of
        Inl e \<Rightarrow> Inl e
      | Inr messages \<Rightarrow>
          py_append messages (PDict [(''role'', PStr ''user''), (''content'', message)]))))))"

definition request_payload :: "string \<Rightarrow> pyval" where
  \<comment> \<open>Lines 97 to 103.\<close>
  "request_payload prompt =
     PDict [(''prompt'', PStr prompt),
            (''max_new_tokens'', PInt 512),
            (''temperature'', PFloat ''0.7''),
            (''top_p'', PFloat ''0.9''),
            (''do_sample'', PBool True)]"

definition success_response :: "env \<Rightarrow> pyval \<Rightarrow> pyval \<Rightarrow> response" where
  \<comment> \<open>Lines 120 to 133.\<close>
  "success_response env assistant_response messages =
     \<lparr>statusCode = 200,
      headers =
        [(''Content-Type'', ''application/json''),
         (''Access-Control-Allow-Origin'', ''*''),
         (''Access-Control-Allow-Headers'',
          ''Content-Type,X-Amz-Date,Authorization,X-Api-Key,X-Amz-Security-Token''),
         (''Access-Control-Allow-Methods'', ''OPTIONS,POST'')],
      body = json_dumps env
        (PDict [(''success'', PBool True),
                (''response'', assistant_response),
                (''conversationHistory'', messages)])\<rparr>"

definition error_response :: "env \<Rightarrow> exn \<Rightarrow> response" where
  \<comment> \<open>Lines 138 to 150.\<close>
  "error_response env error =
     \<lparr>statusCode = 500,
      headers =
        [(''Content-Type'', ''application/json''),
         (''Access-Control-Allow-Origin'', ''*''),
         (''Access-Control-Allow-Headers'',
          ''Content-Type,X-Amz-Date,Authorization,X-Api-Key,X-Amz-Security-Token''),
         (''Access-Control-Allow-Methods'', ''OPTIONS,POST'')],
      body = json_dumps env
        (PDict [(''success'', PBool False),
                (''error'', PStr (str_exn error))])\<rparr>"

definition finish :: "env \<Rightarrow> pyval \<Rightarrow> pyval \<Rightarrow> exn + response" where
  \<comment> \<open>Lines 111 to 133.\<close>
  "finish env messages result =
     (case py_getitem result ''generated_text'' of
        Inl e \<Rightarrow> Inl e
      | Inr assistant_response \<Rightarrow>
     (case py_append messages
             (PDict [(''role'', PStr ''assistant''), (''content'', assistant_response)]) of
        Inl e \<Rightarrow> Inl e
      | Inr messages' \<Rightarrow> Inr (success_response env assistant_response messages')))"

definition handler_try ::
  "env \<Rightarrow> pyval \<Rightarrow> lambda_context \<Rightarrow> world \<Rightarrow> world \<times> (exn + response)" where
  \<comment> \<open>The body of the \<^verbatim>\<open>try\<close>: the state it leaves, and the response or the
      exception that ended it.\<close>
  "handler_try env event ctx w =
     (case init_client env ctx w of
        Inl e \<Rightarrow> (w, Inl e)
      | Inr w1 \<Rightarrow>
     (case get_user_info event of
        Inl e \<Rightarrow> (w1, Inl e)
      | Inr user_info \<Rightarrow>
     (case request_messages env event of
        Inl e \<Rightarrow> (w1, Inl e)
      | Inr messages \<Rightarrow>
     (case build_prompt messages of
        Inl e \<Rightarrow> (w1, Inl e)
      | Inr bedrock_messages \<Rightarrow>
     (case invoke_model env (request_payload bedrock_messages) w1 of
        (w2, Inl e) \<Rightarrow> (w2, Inl e)
      | (w2, Inr result) \<Rightarrow> (w2, finish env messages result))))))"

definition lambda_handler ::
  "env \<Rightarrow> pyval \<Rightarrow> lambda_context \<Rightarrow> world \<Rightarrow> world \<times> response" where
  \<comment> \<open>\<^verbatim>\<open>except Exception\<close> catches every exception of the body.\<close>
  "lambda_handler env event ctx w =
     (case handler_try env event ctx w of
        (w', Inr r) \<Rightarrow> (w', r)
      | (w', Inl error) \<Rightarrow> (w', error_response env error))"

section \<open>Well-formed messages\<close>

text \<open>
  A Message as the comment in \<^verbatim>\<open>build_prompt\<close> and the sample of the module's
  \<^verbatim>\<open>__main__\<close> block have it: a role and a list of content items, each a dict with
  one \<^verbatim>\<open>text\<close>. \<open>message_value\<close> is the Python value of a Message.
\<close>

record message =
  msg_role :: string
  msg_texts :: "string list"

definition message_value :: "message \<Rightarrow> pyval" where
  "message_value m =
     PDict [(''role'', PStr (msg_role m)),
            (''content'', PList (map (\<lambda>t. PDict [(''text'', PStr t)]) (msg_texts m)))]"

fun is_dict :: "pyval \<Rightarrow> bool" where
  "is_dict (PDict kvs) = True"
| "is_dict v = False"

fun is_content_items :: "pyval \<Rightarrow> bool" where
  \<comment> \<open>A sequence of dict-like content items.\<close>
  "is_content_items (PList items) = list_all is_dict items"
| "is_content_items v = False"

section \<open>A test environment\<close>

text \<open>
  Stand-ins for the libraries, used where a statement is evaluated on a concrete
  event. \<open>show_json\<close> prints a value as JSON text (without escapes, which the examples
  do not need); \<open>loads_known\<close> parses exactly the texts that \<open>show_json\<close> prints for a
  given list of values and raises on every other text.
\<close>

fun show_json :: "pyval \<Rightarrow> string"
  and show_items :: "pyval list \<Rightarrow> string list"
  and show_pairs :: "(string \<times> pyval) list \<Rightarrow> string list" where
  "show_json PNone = ''null''"
| "show_json (PBool b) = (if b then ''true'' else ''false'')"
| "show_json (PInt i) = str_int i"
| "show_json (PFloat f) = f"
| "show_json (PStr s) = [CHR 0x22] @ s @ [CHR 0x22]"
| "show_json (PList xs) = ''['' @ join_str '', '' (show_items xs) @ '']''"
| "show_json (PDict kvs) = ''{'' @ join_str '', '' (show_pairs kvs) @ ''}''"
| "show_items [] = []"
| "show_items (x # xs) = show_json x # show_items xs"
| "show_pairs [] = []"
| "show_pairs (kv # kvs) =
     ([CHR 0x22] @ fst kv @ [CHR 0x22] @ '': '' @ show_json (snd kv)) # show_pairs kvs"

definition loads_known :: "pyval list \<Rightarrow> string \<Rightarrow> exn + pyval" where
  "loads_known vs s =
     (case find (\<lambda>v. show_json v = s) vs of
        Some v \<Rightarrow> Inr v
      | None \<Rightarrow> Inl (Exn LibraryError ''Expecting value: line 1 column 1 (char 0)''))"

definition reason_phrase :: "int \<Rightarrow> string" where
  "reason_phrase st =
     (if st = 200 then ''OK'' else if st = 201 then ''Created''
      else if st = 404 then ''Not Found'' else [])"

definition test_env :: "pyval list \<Rightarrow> int \<Rightarrow> pyval \<Rightarrow> env" where
  \<comment> \<open>The bodies \<open>vs\<close> parse; the endpoint answers every request with the given
      status and the given JSON value as its body.\<close>
  "test_env vs st answer =
     \<lparr>json_loads = loads_known (answer # vs),
      json_dumps = show_json,
      http_exchange =
        (\<lambda>req. Inr \<lparr>status = st, reason = reason_phrase st,
                      read = Inr (show_json answer)\<rparr>),
      boto3_client = (\<lambda>service region. Inr (Client service region))\<rparr>"

definition test_context :: lambda_context where
  "test_context =
     \<lparr>invoked_function_arn = ''arn:aws:lambda:ap-northeast-1:123456789012:function:chat''\<rparr>"

definition fresh_world :: world where
  "fresh_world = \<lparr>bedrock_client = None, outbound = []\<rparr>"

definition event_with_body :: "pyval \<Rightarrow> pyval" where
  \<comment> \<open>The event API Gateway sends for a request whose body is the JSON text of \<open>v\<close>.\<close>
  "event_with_body v = PDict [(''body'', PStr (show_json v))]"

section \<open>Facts about the operations\<close>

lemma py_get_dict:
  "py_get (PDict kvs) k d = Inr (case map_of kvs k of None \<Rightarrow> d | Some x \<Rightarrow> x)"
  by (simp add: py_get_def)

lemma py_iter_list: "py_iter (PList xs) = Inr xs"
  by (simp add: py_iter_def)

lemma py_get_Inr: "py_get v k d = Inr x \<Longrightarrow> is_dict v"
  by (cases v) (simp_all add: py_get_def)

lemma py_getitem_Inr:
  "py_getitem v k = Inr x \<longleftrightarrow> (\<exists>kvs. v = PDict kvs \<and> map_of kvs k = Some x)"
  by (cases v) (auto simp: py_getitem_def split: option.splits)

lemma py_getitem_dict_None:
  "map_of kvs k = None \<Longrightarrow> py_getitem (PDict kvs) k = Inl (Exn KeyError (quoted k))"
  by (simp add: py_getitem_def)

lemma py_getitem_dict_Some:
  "map_of kvs k = Some x \<Longrightarrow> py_getitem (PDict kvs) k = Inr x"
  by (simp add: py_getitem_def)

lemma loads_value_Inr:
  "loads_value env v = Inr p \<longleftrightarrow> (\<exists>s. v = PStr s \<and> json_loads env s = Inr p)"
  by (cases v) (auto simp: loads_value_def)

lemma py_copy_append:
  "py_copy h = Inr c \<Longrightarrow> py_append c x = Inr ms \<Longrightarrow> \<exists>hist. h = PList hist \<and> ms = PList (hist @ [x])"
  by (cases h) (auto simp: py_copy_def py_append_def)

lemma request_messages_Inr:
  assumes "request_messages env event = Inr messages"
  shows "\<exists>ev b kvs m hist.
           event = PDict ev \<and> map_of ev ''body'' = Some (PStr b)
         \<and> json_loads env b = Inr (PDict kvs) \<and> map_of kvs ''message'' = Some m
         \<and> (case map_of kvs ''conversationHistory'' of None \<Rightarrow> PList [] | Some h \<Rightarrow> h) = PList hist
         \<and> messages = PList (hist @ [PDict [(''role'', PStr ''user''), (''content'', m)]])"
proof -
  from assms obtain bv parsed m h c where
    1: "py_getitem event ''body'' = Inr bv" and
    2: "loads_value env bv = Inr parsed" and
    3: "py_getitem parsed ''message'' = Inr m" and
    4: "py_get parsed ''conversationHistory'' (PList []) = Inr h" and
    5: "py_copy h = Inr c" and
    6: "py_append c (PDict [(''role'', PStr ''user''), (''content'', m)]) = Inr messages"
    unfolding request_messages_def by (auto split: sum.splits)
  from 1 obtain ev where ev: "event = PDict ev" "map_of ev ''body'' = Some bv"
    unfolding py_getitem_Inr by blast
  from 2 obtain b where b: "bv = PStr b" "json_loads env b = Inr parsed"
    unfolding loads_value_Inr by blast
  from 3 obtain kvs where kvs: "parsed = PDict kvs" "map_of kvs ''message'' = Some m"
    unfolding py_getitem_Inr by blast
  from 4 kvs have h: "h = (case map_of kvs ''conversationHistory'' of None \<Rightarrow> PList [] | Some h \<Rightarrow> h)"
    by (simp add: py_get_dict)
  from py_copy_append [OF 5 6] obtain hist where hist: "h = PList hist"
    "messages = PList (hist @ [PDict [(''role'', PStr ''user''), (''content'', m)]])" by blast
  show ?thesis using ev b kvs h hist by auto
qed

lemma build_lines_append:
  "build_lines (xs @ ys) acc =
     (case build_lines xs acc of Inl e \<Rightarrow> Inl e | Inr acc' \<Rightarrow> build_lines ys acc')"
  by (induction xs arbitrary: acc) (simp_all split: sum.splits)

lemma build_prompt_last:
  assumes "build_prompt (PList (hist @ [msg])) = Inr p"
  shows "\<exists>l. turn_line msg = Inr l"
proof -
  from assms obtain ls where "build_lines (hist @ [msg]) [rstrip SYSTEM_PROMPT] = Inr ls"
    unfolding build_prompt_def py_iter_list by (auto split: sum.splits)
  then obtain acc where "build_lines [msg] acc = Inr ls"
    unfolding build_lines_append by (auto split: sum.splits)
  then show ?thesis by (cases "turn_line msg") simp_all
qed

lemma mapE_get_all_dict:
  "mapE (\<lambda>c. py_get c k d) cs = Inr texts \<Longrightarrow> list_all is_dict cs"
proof (induction cs arbitrary: texts)
  case Nil
  show ?case by simp
next
  case (Cons c cs)
  from Cons.prems obtain y ys where y: "py_get c k d = Inr y"
    and ys: "mapE (\<lambda>c. py_get c k d) cs = Inr ys"
    by (auto split: sum.splits)
  from y have "is_dict c" by (rule py_get_Inr)
  moreover from ys have "list_all is_dict cs" by (rule Cons.IH)
  ultimately show ?case by simp
qed

lemma turn_line_user_content:
  assumes "turn_line (PDict [(''role'', PStr ''user''), (''content'', m)]) = Inr l"
  shows "m = PStr [] \<or> m = PDict [] \<or> is_content_items m"
proof -
  from assms obtain cs texts where it: "py_iter m = Inr cs"
    and mp: "mapE (\<lambda>c. py_get c ''text'' (PStr [])) cs = Inr texts"
    unfolding turn_line_def py_get_dict by (auto split: sum.splits)
  from mp have ad: "list_all is_dict cs" by (rule mapE_get_all_dict)
  show ?thesis
  proof (cases m)
    case (PStr s)
    then have "cs = map (\<lambda>c. PStr [c]) s" using it by (simp add: py_iter_def)
    then have "s = []" using ad by (cases s) simp_all
    then show ?thesis using PStr by simp
  next
    case (PList xs)
    then have "cs = xs" using it by (simp add: py_iter_def)
    then show ?thesis using ad PList by simp
  next
    case (PDict kvs)
    then have "cs = map (\<lambda>kv. PStr (fst kv)) kvs" using it by (simp add: py_iter_def)
    then have "kvs = []" using ad by (cases kvs) simp_all
    then show ?thesis using PDict by simp
  qed (use it in \<open>simp_all add: py_iter_def\<close>)
qed

lemma init_client_outbound: "init_client env ctx w = Inr w1 \<Longrightarrow> outbound w1 = outbound w"
  by (auto simp: init_client_def split: option.splits sum.splits)

lemma invoke_model_outbound:
  "outbound (fst (invoke_model env payload w)) =
     outbound w @ [\<lparr>req_url = API_URL @ ''/generate'', req_data = json_dumps env payload,
                    req_headers = [(''Content-Type'', ''application/json'')],
                    req_method = ''POST''\<rparr>]"
  by (simp add: invoke_model_def Let_def split: sum.splits)

lemma invoke_model_result:
  "snd (invoke_model env payload w) =
     (case urlopen env \<lparr>req_url = API_URL @ ''/generate'', req_data = json_dumps env payload,
                    req_headers = [(''Content-Type'', ''application/json'')],
                    req_method = ''POST''\<rparr> of
        Inl e \<Rightarrow> Inl e
      | Inr resp \<Rightarrow>
          if status resp \<noteq> 200
          then Inl (Exn Exception (''API error: '' @ str_int (status resp)))
          else (case read resp of Inl e \<Rightarrow> Inl e | Inr s \<Rightarrow> json_loads env s))"
  by (simp add: invoke_model_def Let_def split: sum.splits)

section \<open>The region of an ARN: what the search finds\<close>

lemma match_here_lits:
  "match_here (map Lit p @ r) s =
     (if startswith p s then match_here r (drop (length p) s) else None)"
proof (induction p arbitrary: s)
  case Nil
  show ?case by (simp add: startswith_def)
next
  case (Cons c p)
  show ?case
  proof (cases s)
    case Nil
    then show ?thesis by (simp add: startswith_def)
  next
    case (Cons x xs)
    with Cons.IH [of xs] show ?thesis by (auto simp: startswith_def)
  qed
qed

lemma startswith_iff: "startswith p s \<longleftrightarrow> (\<exists>t. s = p @ t)"
proof
  assume "startswith p s"
  then have "take (length p) s = p" by (simp only: startswith_def)
  then have "s = p @ drop (length p) s" by (metis append_take_drop_id)
  then show "\<exists>t. s = p @ t" ..
next
  assume "\<exists>t. s = p @ t"
  then obtain t where "s = p @ t" ..
  then show "startswith p s" by (simp add: startswith_def)
qed

lemma match_here_lits_Some:
  "match_here (map Lit p @ r) s = Some caps \<longleftrightarrow> (\<exists>t. s = p @ t \<and> match_here r t = Some caps)"
proof (cases "startswith p s")
  case True
  then obtain t where s: "s = p @ t" unfolding startswith_iff ..
  have "match_here (map Lit p @ r) s = match_here r t"
    using True s by (simp add: match_here_lits)
  moreover have "(\<exists>t'. s = p @ t' \<and> match_here r t' = Some caps) \<longleftrightarrow> match_here r t = Some caps"
    using s by simp
  ultimately show ?thesis by simp
next
  case False
  then have "match_here (map Lit p @ r) s = None" by (simp add: match_here_lits)
  moreover have "\<not> (\<exists>t. s = p @ t)" using False unfolding startswith_iff .
  ultimately show ?thesis by simp
qed

lemma try_lengths_none:
  "(\<And>m. 0 < m \<Longrightarrow> m \<le> n \<Longrightarrow> k (drop m s) = None) \<Longrightarrow> try_lengths k s n = None"
  by (induction n) auto

lemma match_colon:
  "match_here [Lit c] t = (case t of [] \<Rightarrow> None | x # xs \<Rightarrow> if x = c then Some [] else None)"
  by (cases t) auto

lemma match_group_colon:
  assumes "c \<notin> set run" and "rest = [] \<or> hd rest = c"
  shows "match_here [GroupPlusNot [c], Lit c] (run @ rest) =
           (if run \<noteq> [] \<and> rest \<noteq> [] then Some [run] else None)"
proof -
  define k where "k = (\<lambda>t. match_here [Lit c] t)"
  have kv: "k t = (case t of [] \<Rightarrow> None | x # xs \<Rightarrow> if x = c then Some [] else None)" for t
    unfolding k_def by (rule match_colon)
  have tw: "takeWhile (\<lambda>x. x \<notin> set [c]) (run @ rest) = run"
  proof -
    have "takeWhile (\<lambda>x. x \<notin> set [c]) (run @ rest) = run @ takeWhile (\<lambda>x. x \<notin> set [c]) rest"
      by (rule takeWhile_append2) (use assms(1) in auto)
    moreover have "takeWhile (\<lambda>x. x \<notin> set [c]) rest = []"
      using assms(2) by (cases rest) auto
    ultimately show ?thesis by simp
  qed
  have step: "match_here [GroupPlusNot [c], Lit c] (run @ rest) =
                try_lengths k (run @ rest) (length run)"
    unfolding k_def by (simp only: match_here.simps(3) tw)
  have inner: "k (drop m (run @ rest)) = None" if "m < length run" for m
  proof -
    have "drop m (run @ rest) = (run ! m) # drop (Suc m) run @ rest"
      using that by (simp add: Cons_nth_drop_Suc)
    moreover have "run ! m \<noteq> c" using assms(1) that by (metis nth_mem)
    ultimately show ?thesis by (simp add: kv)
  qed
  show ?thesis
  proof (cases "length run")
    case 0
    then show ?thesis unfolding step by simp
  next
    case (Suc n)
    have low: "try_lengths k (run @ rest) n = None"
      by (rule try_lengths_none) (use Suc inner in auto)
    have top: "drop (Suc n) (run @ rest) = rest" using Suc by simp
    have ne: "run \<noteq> []" using Suc by auto
    show ?thesis
    proof (cases rest)
      case Nil
      then have "k rest = None" by (simp add: kv)
      then have "try_lengths k (run @ rest) (Suc n) = None"
        using low top by simp
      then show ?thesis unfolding step Suc using Nil by simp
    next
      case (Cons x xs)
      then have "x = c" using assms(2) by simp
      then have "k rest = Some []" using Cons by (simp add: kv)
      then have "try_lengths k (run @ rest) (Suc n) = Some [take (Suc n) (run @ rest)]"
        using top by simp
      moreover have "take (Suc n) (run @ rest) = run" using Suc by simp
      ultimately show ?thesis unfolding step Suc using Cons ne by simp
    qed
  qed
qed

lemma split_run:
  "\<exists>run rest. s = run @ rest \<and> c \<notin> set run \<and> (rest = [] \<or> hd rest = c)"
proof -
  have "s = takeWhile (\<lambda>x. x \<noteq> c) s @ dropWhile (\<lambda>x. x \<noteq> c) s" by simp
  moreover have "c \<notin> set (takeWhile (\<lambda>x. x \<noteq> c) s)"
    by (metis (mono_tags, lifting) set_takeWhileD)
  moreover have "dropWhile (\<lambda>x. x \<noteq> c) s = [] \<or> hd (dropWhile (\<lambda>x. x \<noteq> c) s) = c"
    using hd_dropWhile [of "\<lambda>x. x \<noteq> c" s] by auto
  ultimately show ?thesis by blast
qed


lemma group_match_shape:
  assumes g: "match_here [GroupPlusNot [c], Lit c] u = Some caps" and sw: "s = p @ u"
  shows "\<exists>region post. s = p @ region @ c # post \<and> region \<noteq> []
        \<and> c \<notin> set region \<and> caps = [region]"
proof -
  obtain run rest where d: "u = run @ rest" and r: "c \<notin> set run"
    and h: "rest = [] \<or> hd rest = c"
    using split_run [of u c] by blast
  have e: "match_here [GroupPlusNot [c], Lit c] (run @ rest) =
           (if run \<noteq> [] \<and> rest \<noteq> [] then Some [run] else None)"
    by (rule match_group_colon [OF r h])
  have "match_here [GroupPlusNot [c], Lit c] (run @ rest) = Some caps"
    using g unfolding d .
  then have i: "(if run \<noteq> [] \<and> rest \<noteq> [] then Some [run] else None) = Some caps"
    unfolding e .
  have ne: "run \<noteq> [] \<and> rest \<noteq> []"
  proof (rule ccontr)
    assume "\<not> (run \<noteq> [] \<and> rest \<noteq> [])"
    then have "(if run \<noteq> [] \<and> rest \<noteq> [] then Some [run] else None) = (None :: string list option)"
      by (rule if_not_P)
    with i show False by (simp only: option.distinct)
  qed
  then have "(if run \<noteq> [] \<and> rest \<noteq> [] then Some [run] else None) = Some [run]"
    by (rule if_P)
  with i have caps: "caps = [run]" by (simp only: option.inject)
  from ne h obtain post where rest: "rest = c # post" by (cases rest) simp_all
  have "s = p @ run @ c # post" using sw d rest by simp
  with ne r caps show ?thesis by blast
qed
lemma group_match_of_shape:
  assumes "\<exists>region post. s = p @ region @ c # post \<and> region \<noteq> []
        \<and> c \<notin> set region \<and> caps = [region]"
  shows "match_here (map Lit p @ [GroupPlusNot [c], Lit c]) s = Some caps"
proof -
  from assms obtain region post where s: "s = p @ (region @ c # post)"
    and ne: "region \<noteq> []" and r: "c \<notin> set region" and caps: "caps = [region]"
    by auto
  have "match_here [GroupPlusNot [c], Lit c] (region @ (c # post)) =
          (if region \<noteq> [] \<and> c # post \<noteq> [] then Some [region] else None)"
    by (rule match_group_colon [OF r]) simp
  then have "match_here [GroupPlusNot [c], Lit c] (region @ c # post) = Some caps"
    using ne caps by simp
  then show "match_here (map Lit p @ [GroupPlusNot [c], Lit c]) s = Some caps"
    unfolding match_here_lits_Some s by blast
qed

lemma match_prefix_group:
  "match_here (map Lit p @ [GroupPlusNot [c], Lit c]) s = Some caps \<longleftrightarrow>
     (\<exists>region post. s = p @ region @ c # post \<and> region \<noteq> [] \<and> c \<notin> set region
        \<and> caps = [region])"
proof
  assume "match_here (map Lit p @ [GroupPlusNot [c], Lit c]) s = Some caps"
  then obtain u where "s = p @ u" and "match_here [GroupPlusNot [c], Lit c] u = Some caps"
    unfolding match_here_lits_Some by blast
  then show "\<exists>region post. s = p @ region @ c # post \<and> region \<noteq> []
        \<and> c \<notin> set region \<and> caps = [region]"
    by (rule group_match_shape [rotated])
next
  assume "\<exists>region post. s = p @ region @ c # post \<and> region \<noteq> []
        \<and> c \<notin> set region \<and> caps = [region]"
  then show "match_here (map Lit p @ [GroupPlusNot [c], Lit c]) s = Some caps"
    by (rule group_match_of_shape)
qed

lemma match_arn_pattern:
  "match_here ARN_PATTERN s = Some caps \<longleftrightarrow>
     (\<exists>region post. s = ''arn:aws:lambda:'' @ region @ '':'' @ post \<and> region \<noteq> []
        \<and> CHR '':'' \<notin> set region \<and> caps = [region])"
proof -
  have "match_here ARN_PATTERN s = Some caps \<longleftrightarrow>
     (\<exists>region post. s = ''arn:aws:lambda:'' @ region @ CHR '':'' # post \<and> region \<noteq> []
        \<and> CHR '':'' \<notin> set region \<and> caps = [region])"
    unfolding ARN_PATTERN_def by (rule match_prefix_group)
  moreover have "'':'' @ post = CHR '':'' # post" for post by simp
  ultimately show ?thesis by (simp only:)
qed

lemma search_None:
  "search p s = None \<longleftrightarrow> (\<forall>pre t. s = pre @ t \<longrightarrow> match_here p t = None)"
proof (induction s)
  case Nil
  show ?case by simp
next
  case (Cons x xs)
  show ?case
  proof
    assume a: "search p (x # xs) = None"
    then have h: "match_here p (x # xs) = None" and t: "search p xs = None"
      by (auto split: option.splits)
    show "\<forall>pre t. x # xs = pre @ t \<longrightarrow> match_here p t = None"
    proof (intro allI impI)
      fix pre t assume e: "x # xs = pre @ t"
      show "match_here p t = None"
      proof (cases pre)
        case Nil
        then show ?thesis using e h by simp
      next
        case (Cons y ys)
        then have "xs = ys @ t" using e by simp
        then show ?thesis using t Cons.IH by blast
      qed
    qed
  next
    assume a: "\<forall>pre t. x # xs = pre @ t \<longrightarrow> match_here p t = None"
    then have "match_here p (x # xs) = None" by (metis append_Nil)
    moreover have "search p xs = None"
      using a Cons.IH by (metis append_Cons)
    ultimately show "search p (x # xs) = None" by simp
  qed
qed

lemma search_Some:
  "search p s = Some caps \<Longrightarrow>
     \<exists>pre t. s = pre @ t \<and> match_here p t = Some caps
        \<and> (\<forall>pre' t'. s = pre' @ t' \<and> length pre' < length pre \<longrightarrow> match_here p t' = None)"
proof (induction s)
  case Nil
  then show ?case by simp
next
  case (Cons x xs)
  show ?case
  proof (cases "match_here p (x # xs)")
    case (Some c)
    then have "c = caps" using Cons.prems by simp
    with Some have "x # xs = [] @ (x # xs) \<and> match_here p (x # xs) = Some caps
        \<and> (\<forall>pre' t'. x # xs = pre' @ t' \<and> length pre' < length ([]::string) \<longrightarrow> match_here p t' = None)"
      by simp
    then show ?thesis by blast
  next
    case None
    then have "search p xs = Some caps" using Cons.prems by simp
    from Cons.IH [OF this] obtain pre t where xs: "xs = pre @ t"
      and m: "match_here p t = Some caps"
      and l: "\<forall>pre' t'. xs = pre' @ t' \<and> length pre' < length pre \<longrightarrow> match_here p t' = None"
      by blast
    have "\<forall>pre' t'. x # xs = pre' @ t' \<and> length pre' < length (x # pre) \<longrightarrow> match_here p t' = None"
    proof (intro allI impI)
      fix pre' t' assume a: "x # xs = pre' @ t' \<and> length pre' < length (x # pre)"
      show "match_here p t' = None"
      proof (cases pre')
        case Nil
        then show ?thesis using a None by simp
      next
        case (Cons y ys)
        then have "xs = ys @ t'" "length ys < length pre" using a by auto
        then show ?thesis using l by blast
      qed
    qed
    moreover have "x # xs = (x # pre) @ t" using xs by simp
    ultimately show ?thesis using m by blast
  qed
qed

text \<open>
  \<^bold>\<open>C9.\<close> \<^verbatim>\<open>extract_region_from_arn\<close> returns the region segment whenever the string
  contains \<^verbatim>\<open>arn:aws:lambda:<region>:\<close>, the region being a non-empty run of
  characters other than a colon, followed by a colon; of several occurrences it is the
  leftmost one whose region is returned. For a string with no occurrence it returns
  \<^verbatim>\<open>us-east-1\<close>.
\<close>

theorem region_extraction_spec:
  "((\<exists>pre region post. arn = pre @ ''arn:aws:lambda:'' @ region @ '':'' @ post
        \<and> region \<noteq> [] \<and> CHR '':'' \<notin> set region) \<longrightarrow>
     (\<exists>pre region post. arn = pre @ ''arn:aws:lambda:'' @ region @ '':'' @ post
        \<and> region \<noteq> [] \<and> CHR '':'' \<notin> set region
        \<and> (\<forall>pre' region' post'. arn = pre' @ ''arn:aws:lambda:'' @ region' @ '':'' @ post'
              \<and> region' \<noteq> [] \<and> CHR '':'' \<notin> set region' \<longrightarrow> length pre \<le> length pre')
        \<and> extract_region_from_arn arn = region))
   \<and> (\<not> (\<exists>pre region post. arn = pre @ ''arn:aws:lambda:'' @ region @ '':'' @ post
        \<and> region \<noteq> [] \<and> CHR '':'' \<notin> set region) \<longrightarrow>
      extract_region_from_arn arn = ''us-east-1'')"
proof (cases "search ARN_PATTERN arn")
  case None
  have "\<not> (\<exists>pre region post. arn = pre @ ''arn:aws:lambda:'' @ region @ '':'' @ post
        \<and> region \<noteq> [] \<and> CHR '':'' \<notin> set region)"
  proof
    assume "\<exists>pre region post. arn = pre @ ''arn:aws:lambda:'' @ region @ '':'' @ post
        \<and> region \<noteq> [] \<and> CHR '':'' \<notin> set region"
    then obtain pre region post where a: "arn = pre @ (''arn:aws:lambda:'' @ region @ '':'' @ post)"
      and b: "region \<noteq> []" "CHR '':'' \<notin> set region" by blast
    have "match_here ARN_PATTERN (''arn:aws:lambda:'' @ region @ '':'' @ post) = Some [region]"
      unfolding match_arn_pattern using b by blast
    moreover have "match_here ARN_PATTERN (''arn:aws:lambda:'' @ region @ '':'' @ post) = None"
      using None a unfolding search_None by blast
    ultimately show False by simp
  qed
  moreover have "extract_region_from_arn arn = ''us-east-1''"
    using None by (simp add: extract_region_from_arn_def)
  ultimately show ?thesis by blast
next
  case (Some caps)
  from search_Some [OF Some] obtain pre t where arn: "arn = pre @ t"
    and m: "match_here ARN_PATTERN t = Some caps"
    and l: "\<forall>pre' t'. arn = pre' @ t' \<and> length pre' < length pre \<longrightarrow> match_here ARN_PATTERN t' = None"
    by blast
  from m obtain region post where t: "t = ''arn:aws:lambda:'' @ region @ '':'' @ post"
    and b: "region \<noteq> []" "CHR '':'' \<notin> set region" and caps: "caps = [region]"
    unfolding match_arn_pattern by blast
  have res: "extract_region_from_arn arn = region"
    using Some caps by (simp add: extract_region_from_arn_def)
  have left: "\<forall>pre' region' post'. arn = pre' @ ''arn:aws:lambda:'' @ region' @ '':'' @ post'
              \<and> region' \<noteq> [] \<and> CHR '':'' \<notin> set region' \<longrightarrow> length pre \<le> length pre'"
  proof (intro allI impI)
    fix pre' region' post'
    assume a: "arn = pre' @ ''arn:aws:lambda:'' @ region' @ '':'' @ post'
              \<and> region' \<noteq> [] \<and> CHR '':'' \<notin> set region'"
    have "match_here ARN_PATTERN (''arn:aws:lambda:'' @ region' @ '':'' @ post') = Some [region']"
      unfolding match_arn_pattern using a by blast
    moreover have "arn = pre' @ (''arn:aws:lambda:'' @ region' @ '':'' @ post')" using a by simp
    ultimately have "\<not> length pre' < length pre" using l by force
    then show "length pre \<le> length pre'" by simp
  qed
  have "arn = pre @ ''arn:aws:lambda:'' @ region @ '':'' @ post" using arn t by simp
  with b left res show ?thesis by blast
qed

text \<open>
  The region of a Lambda ARN is found; a string that stops before the region gets the
  default.
\<close>

theorem region_examples:
  "(\<exists>pre region post.
       ''arn:aws:lambda:ap-northeast-1:123456789012:function:chat''
         = pre @ ''arn:aws:lambda:'' @ region @ '':'' @ post
       \<and> region \<noteq> [] \<and> CHR '':'' \<notin> set region
       \<and> extract_region_from_arn ''arn:aws:lambda:ap-northeast-1:123456789012:function:chat''
           = region)
   \<and> extract_region_from_arn ''arn:aws:lambda:ap-northeast-1:123456789012:function:chat''
       = ''ap-northeast-1''
   \<and> extract_region_from_arn ''arn:aws:lambda'' = ''us-east-1''"
proof -
  let ?arn = "''arn:aws:lambda:ap-northeast-1:123456789012:function:chat''"
  have "?arn = [] @ ''arn:aws:lambda:'' @ ''ap-northeast-1'' @ '':'' @ ''123456789012:function:chat''
          \<and> ''ap-northeast-1'' \<noteq> [] \<and> CHR '':'' \<notin> set ''ap-northeast-1''"
    by simp
  then have h: "\<exists>pre region post. ?arn = pre @ ''arn:aws:lambda:'' @ region @ '':'' @ post
        \<and> region \<noteq> [] \<and> CHR '':'' \<notin> set region"
    by blast
  have n: "\<not> (\<exists>pre region post. ''arn:aws:lambda'' = pre @ ''arn:aws:lambda:'' @ region @ '':'' @ post
        \<and> region \<noteq> [] \<and> CHR '':'' \<notin> set region)"
  proof
    assume "\<exists>pre region post. ''arn:aws:lambda'' = pre @ ''arn:aws:lambda:'' @ region @ '':'' @ post
        \<and> region \<noteq> [] \<and> CHR '':'' \<notin> set region"
    then obtain pre region post where
      "''arn:aws:lambda'' = pre @ ''arn:aws:lambda:'' @ region @ '':'' @ post" by blast
    then have "length ''arn:aws:lambda''
                 = length (pre @ ''arn:aws:lambda:'' @ region @ '':'' @ post)"
      by (rule arg_cong)
    then show False by simp
  qed
  from region_extraction_spec [of ?arn] h
  have 1: "\<exists>pre region post. ?arn = pre @ ''arn:aws:lambda:'' @ region @ '':'' @ post
        \<and> region \<noteq> [] \<and> CHR '':'' \<notin> set region
        \<and> extract_region_from_arn ?arn = region"
    by blast
  have 2: "extract_region_from_arn ?arn = ''ap-northeast-1''" by code_simp
  from region_extraction_spec [of "''arn:aws:lambda''"] n
  have 3: "extract_region_from_arn ''arn:aws:lambda'' = ''us-east-1''" by blast
  from 1 2 3 show ?thesis by blast
qed

section \<open>The prompt of a list of well-formed messages\<close>

lemma rstrip_snoc_newline:
  "\<not> py_isspace (last s) \<Longrightarrow> s \<noteq> [] \<Longrightarrow> rstrip (pre @ newline @ s @ newline) = pre @ newline @ s"
proof -
  assume a: "\<not> py_isspace (last s)" and ne: "s \<noteq> []"
  have nl: "py_isspace (CHR 0x0A)" by (simp add: py_isspace_def)
  from ne obtain x xs where r: "rev s = x # xs" by (cases "rev s") auto
  then have "x = last s" using ne by (metis last_rev list.sel(1) rev_rev_ident hd_rev)
  then have nx: "\<not> py_isspace x" using a by simp
  have "rev (pre @ newline @ s @ newline) = CHR 0x0A # x # xs @ rev newline @ rev pre"
    using r by (simp add: newline_def)
  then have "dropWhile py_isspace (rev (pre @ newline @ s @ newline)) = x # xs @ rev newline @ rev pre"
    using nl nx by simp
  then have "rstrip (pre @ newline @ s @ newline) = rev (x # xs @ rev newline @ rev pre)"
    by (simp only: rstrip_def)
  also have "\<dots> = pre @ newline @ rev (x # xs)" by simp
  also have "rev (x # xs) = s" using r by (metis rev_rev_ident)
  finally show ?thesis .
qed

lemma preamble_line2_last: "preamble_line2 \<noteq> [] \<and> last preamble_line2 = CHR 0x82"
  unfolding preamble_line2_def by simp

lemma rstrip_SYSTEM_PROMPT: "rstrip SYSTEM_PROMPT = preamble_line1 @ newline @ preamble_line2"
  unfolding SYSTEM_PROMPT_def
  by (rule rstrip_snoc_newline) (simp_all add: preamble_line2_last py_isspace_def)

lemma API_URL_value: "API_URL = ''https://a814-35-196-164-95.ngrok-free.app''"
  by (simp add: API_URL_def rstrip_chars_def)

lemma join_from_strs: "join_from i (map PStr ts) = Inr (concat ts)"
  by (induction ts arbitrary: i) simp_all

lemma mapE_text_items:
  "mapE (\<lambda>c. py_get c ''text'' (PStr [])) (map (\<lambda>t. PDict [(''text'', PStr t)]) ts)
     = Inr (map PStr ts)"
  by (induction ts) (simp_all add: py_get_dict)

lemma turn_line_message:
  "turn_line (message_value m) =
     Inr ((if msg_role m = ''user'' then user_label else assistant_label)
          @ '': '' @ concat (msg_texts m))"
  by (simp add: turn_line_def message_value_def py_get_dict py_iter_list mapE_text_items
      py_join_empty_def join_from_strs)

lemma build_lines_messages:
  "build_lines (map message_value ms) acc =
     Inr (acc @ map (\<lambda>m. (if msg_role m = ''user'' then user_label else assistant_label)
                         @ '': '' @ concat (msg_texts m)) ms)"
  by (induction ms arbitrary: acc) (simp_all add: turn_line_message)

lemma build_prompt_messages:
  "build_prompt (PList (map message_value ms)) =
     Inr (join_str newline
            ([preamble_line1 @ newline @ preamble_line2]
             @ map (\<lambda>m. (if msg_role m = ''user'' then user_label else assistant_label)
                         @ '': '' @ concat (msg_texts m)) ms
             @ [assistant_label @ '': '']))"
  by (simp add: build_prompt_def py_iter_list build_lines_messages rstrip_SYSTEM_PROMPT)

text \<open>
  \<^bold>\<open>C4.\<close> For \<open>N\<close> prior Messages and the new user Message, the prompt is the system
  preamble, then \<open>N + 1\<close> turn lines in the order of the input, then the marker made of
  the assistant label, a colon and a space, all joined by newlines. The line of a turn
  is its role label, a colon, a space and all its texts concatenated with no separator;
  the label is the user label exactly when the role is \<^verbatim>\<open>user\<close>.
\<close>

theorem prompt_has_one_line_per_turn:
  "build_prompt (PList (map message_value
       (history @ [\<lparr>msg_role = ''user'', msg_texts = [text]\<rparr>]))) =
     Inr (join_str newline
            ([preamble_line1 @ newline @ preamble_line2]
             @ map (\<lambda>m. (if msg_role m = ''user'' then user_label else assistant_label)
                         @ '': '' @ concat (msg_texts m))
                 (history @ [\<lparr>msg_role = ''user'', msg_texts = [text]\<rparr>])
             @ [assistant_label @ '': '']))
   \<and> length (map (\<lambda>m. (if msg_role m = ''user'' then user_label else assistant_label)
                         @ '': '' @ concat (msg_texts m))
                 (history @ [\<lparr>msg_role = ''user'', msg_texts = [text]\<rparr>]))
       = length history + 1"
  using build_prompt_messages [of "history @ [\<lparr>msg_role = ''user'', msg_texts = [text]\<rparr>]"]
  by simp

text \<open>
  A conversation of three turns, the second with two content items.
\<close>

theorem prompt_example:
  "build_prompt (PList (map message_value
       ([\<lparr>msg_role = ''user'', msg_texts = [''hi'']\<rparr>,
         \<lparr>msg_role = ''assistant'', msg_texts = [''hel'', ''lo'']\<rparr>]
        @ [\<lparr>msg_role = ''user'', msg_texts = [''bye'']\<rparr>]))) =
     Inr (preamble_line1 @ newline @ preamble_line2 @ newline
          @ user_label @ '': hi'' @ newline
          @ assistant_label @ '': hello'' @ newline
          @ user_label @ '': bye'' @ newline
          @ assistant_label @ '': '')"
  using prompt_has_one_line_per_turn
    [of "[\<lparr>msg_role = ''user'', msg_texts = [''hi'']\<rparr>,
          \<lparr>msg_role = ''assistant'', msg_texts = [''hel'', ''lo'']\<rparr>]" "''bye''"]
  by simp

section \<open>The handler, step by step\<close>

lemma handler_init_fail:
  "init_client env ctx w = Inl e \<Longrightarrow> lambda_handler env event ctx w = (w, error_response env e)"
  by (simp add: lambda_handler_def handler_try_def)

lemma handler_user_fail:
  "init_client env ctx w = Inr w1 \<Longrightarrow> get_user_info event = Inl e \<Longrightarrow>
   lambda_handler env event ctx w = (w1, error_response env e)"
  by (simp add: lambda_handler_def handler_try_def)

lemma handler_messages_fail:
  "init_client env ctx w = Inr w1 \<Longrightarrow> get_user_info event = Inr ui \<Longrightarrow>
   request_messages env event = Inl e \<Longrightarrow>
   lambda_handler env event ctx w = (w1, error_response env e)"
  by (simp add: lambda_handler_def handler_try_def)

lemma handler_prompt_fail:
  "init_client env ctx w = Inr w1 \<Longrightarrow> get_user_info event = Inr ui \<Longrightarrow>
   request_messages env event = Inr messages \<Longrightarrow> build_prompt messages = Inl e \<Longrightarrow>
   lambda_handler env event ctx w = (w1, error_response env e)"
  by (simp add: lambda_handler_def handler_try_def)

lemma handler_invoke:
  assumes "init_client env ctx w = Inr w1" "get_user_info event = Inr ui"
    "request_messages env event = Inr messages" "build_prompt messages = Inr prompt"
  shows "lambda_handler env event ctx w =
          (fst (invoke_model env (request_payload prompt) w1),
           case snd (invoke_model env (request_payload prompt) w1) of
             Inl e \<Rightarrow> error_response env e
           | Inr result \<Rightarrow>
               (case finish env messages result of
                  Inl e \<Rightarrow> error_response env e
                | Inr r \<Rightarrow> r))"
proof (cases "invoke_model env (request_payload prompt) w1")
  case (Pair w2 res)
  show ?thesis
    using assms Pair
    by (cases res) (simp_all add: lambda_handler_def handler_try_def split: sum.split)
qed

lemma handler_cases:
  obtains
    (init_fail) e where "init_client env ctx w = Inl e"
      "lambda_handler env event ctx w = (w, error_response env e)"
  | (early_fail) w1 e where "init_client env ctx w = Inr w1"
      "lambda_handler env event ctx w = (w1, error_response env e)"
      "get_user_info event = Inl e \<or> request_messages env event = Inl e
       \<or> (\<exists>messages. request_messages env event = Inr messages \<and> build_prompt messages = Inl e)"
  | (invoked) w1 ui messages prompt where "init_client env ctx w = Inr w1"
      "get_user_info event = Inr ui" "request_messages env event = Inr messages"
      "build_prompt messages = Inr prompt"
      "lambda_handler env event ctx w =
          (fst (invoke_model env (request_payload prompt) w1),
           case snd (invoke_model env (request_payload prompt) w1) of
             Inl e \<Rightarrow> error_response env e
           | Inr result \<Rightarrow>
               (case finish env messages result of
                  Inl e \<Rightarrow> error_response env e
                | Inr r \<Rightarrow> r))"
proof (cases "init_client env ctx w")
  case (Inl e)
  then show ?thesis using init_fail handler_init_fail by blast
next
  case i: (Inr w1)
  show ?thesis
  proof (cases "get_user_info event")
    case (Inl e)
    then show ?thesis using early_fail [OF i handler_user_fail [OF i Inl]] by blast
  next
    case u: (Inr ui)
    show ?thesis
    proof (cases "request_messages env event")
      case (Inl e)
      then show ?thesis using early_fail [OF i handler_messages_fail [OF i u Inl]] by blast
    next
      case m: (Inr messages)
      show ?thesis
      proof (cases "build_prompt messages")
        case (Inl e)
        then show ?thesis using early_fail [OF i handler_prompt_fail [OF i u m Inl]] m by blast
      next
        case p: (Inr prompt)
        show ?thesis by (rule invoked [OF i u m p handler_invoke [OF i u m p]])
      qed
    qed
  qed
qed

lemma finish_Inr:
  "finish env messages result = Inr r \<Longrightarrow> \<exists>a ms. r = success_response env a ms"
  by (auto simp: finish_def split: sum.splits)

lemma statusCode_success: "statusCode (success_response env a ms) = 200"
  by (simp add: success_response_def)

lemma statusCode_error: "statusCode (error_response env e) = 500"
  by (simp add: error_response_def)

lemma response_forms:
  "(\<exists>a ms. snd (lambda_handler env event ctx w) = success_response env a ms)
   \<or> (\<exists>e. snd (lambda_handler env event ctx w) = error_response env e)"
proof (cases rule: handler_cases [of env ctx w event])
  case (init_fail e)
  then show ?thesis by auto
next
  case (early_fail w1 e)
  then show ?thesis by auto
next
  case (invoked w1 ui messages prompt)
  show ?thesis
  proof (cases "snd (invoke_model env (request_payload prompt) w1)")
    case (Inl e)
    then show ?thesis using invoked(5) by auto
  next
    case (Inr result)
    show ?thesis
    proof (cases "finish env messages result")
      case (Inl e)
      then show ?thesis using invoked(5) Inr by auto
    next
      case r: (Inr r)
      then obtain a ms where "r = success_response env a ms" using finish_Inr by blast
      then show ?thesis using invoked(5) Inr r by auto
    qed
  qed
qed

lemma success_needs_prompt:
  assumes "statusCode (snd (lambda_handler env event ctx w)) = 200"
  shows "\<exists>messages prompt. request_messages env event = Inr messages
           \<and> build_prompt messages = Inr prompt"
proof (cases rule: handler_cases [of env ctx w event])
  case (init_fail e)
  then show ?thesis using assms by (simp add: statusCode_error)
next
  case (early_fail w1 e)
  then show ?thesis using assms by (simp add: statusCode_error)
next
  case (invoked w1 ui messages prompt)
  then show ?thesis by blast
qed

lemma no_messages_error:
  assumes "request_messages env event = Inl e"
  shows "\<exists>e'. snd (lambda_handler env event ctx w) = error_response env e'"
proof (cases rule: handler_cases [of env ctx w event])
  case (init_fail e)
  then show ?thesis by auto
next
  case (early_fail w1 e)
  then show ?thesis by auto
next
  case (invoked w1 ui messages prompt)
  then show ?thesis using assms by simp
qed

lemma outbound_unchanged_or_one:
  "outbound (fst (lambda_handler env event ctx w)) = outbound w
   \<or> (\<exists>messages prompt. request_messages env event = Inr messages
         \<and> build_prompt messages = Inr prompt
         \<and> outbound (fst (lambda_handler env event ctx w)) =
             outbound w @ [\<lparr>req_url = API_URL @ ''/generate'',
                            req_data = json_dumps env (request_payload prompt),
                            req_headers = [(''Content-Type'', ''application/json'')],
                            req_method = ''POST''\<rparr>]
         \<and> snd (lambda_handler env event ctx w) =
             (case (case urlopen env \<lparr>req_url = API_URL @ ''/generate'',
                            req_data = json_dumps env (request_payload prompt),
                            req_headers = [(''Content-Type'', ''application/json'')],
                            req_method = ''POST''\<rparr> of
                      Inl e \<Rightarrow> Inl e
                    | Inr resp \<Rightarrow>
                        if status resp \<noteq> 200
                        then Inl (Exn Exception (''API error: '' @ str_int (status resp)))
                        else (case read resp of Inl e \<Rightarrow> Inl e | Inr s \<Rightarrow> json_loads env s)) of
                Inl e \<Rightarrow> error_response env e
              | Inr result \<Rightarrow>
                 (case finish env messages result of
                    Inl e \<Rightarrow> error_response env e
                  | Inr r \<Rightarrow> r)))"
proof (cases rule: handler_cases [of env ctx w event])
  case (init_fail e)
  then show ?thesis by simp
next
  case (early_fail w1 e)
  then show ?thesis by (simp add: init_client_outbound)
next
  case (invoked w1 ui messages prompt)
  have "outbound w1 = outbound w" using invoked(1) by (rule init_client_outbound)
  then show ?thesis
    using invoked(3,4) unfolding invoked(5)
    by (simp add: invoke_model_outbound invoke_model_result)
qed

lemma error_response_literal:
  "error_response env e =
     \<lparr>statusCode = 500,
      headers =
        [(''Content-Type'', ''application/json''),
         (''Access-Control-Allow-Origin'', ''*''),
         (''Access-Control-Allow-Headers'',
          ''Content-Type,X-Amz-Date,Authorization,X-Api-Key,X-Amz-Security-Token''),
         (''Access-Control-Allow-Methods'', ''OPTIONS,POST'')],
      body = json_dumps env
        (PDict [(''success'', PBool False), (''error'', PStr (str_exn e))])\<rparr>"
  by (simp add: error_response_def)

lemma request_messages_total:
  "(\<exists>e. request_messages env event = Inl e) \<or> (\<exists>ms. request_messages env event = Inr ms)"
  by (cases "request_messages env event") auto

section \<open>Responses\<close>

text \<open>
  \<^bold>\<open>C7.\<close> Every response of the handler, the success response and the error
  response alike, carries exactly the headers \<^verbatim>\<open>Content-Type: application/json\<close>,
  \<^verbatim>\<open>Access-Control-Allow-Origin: *\<close>, \<^verbatim>\<open>Access-Control-Allow-Headers\<close> with the five
  names of the source, and \<^verbatim>\<open>Access-Control-Allow-Methods: OPTIONS,POST\<close>.
\<close>

theorem every_response_has_cors_headers:
  "headers (snd (lambda_handler env event ctx w)) =
     [(''Content-Type'', ''application/json''),
      (''Access-Control-Allow-Origin'', ''*''),
      (''Access-Control-Allow-Headers'',
       ''Content-Type,X-Amz-Date,Authorization,X-Api-Key,X-Amz-Security-Token''),
      (''Access-Control-Allow-Methods'', ''OPTIONS,POST'')]"
  using response_forms [of env event ctx w]
  by (auto simp: success_response_def error_response_def)

text \<open>
  A request that succeeds and an event without a body.
\<close>

theorem cors_headers_examples:
  "headers (snd (lambda_handler
       (test_env [PDict [(''message'', PList [PDict [(''text'', PStr ''hi'')]])]] 200
          (PDict [(''generated_text'', PStr ''X'')]))
       (event_with_body (PDict [(''message'', PList [PDict [(''text'', PStr ''hi'')]])]))
       test_context fresh_world)) =
     [(''Content-Type'', ''application/json''),
      (''Access-Control-Allow-Origin'', ''*''),
      (''Access-Control-Allow-Headers'',
       ''Content-Type,X-Amz-Date,Authorization,X-Api-Key,X-Amz-Security-Token''),
      (''Access-Control-Allow-Methods'', ''OPTIONS,POST'')]
   \<and> headers (snd (lambda_handler
       (test_env [] 200 (PDict [(''generated_text'', PStr ''X'')]))
       (PDict []) test_context fresh_world)) =
     [(''Content-Type'', ''application/json''),
      (''Access-Control-Allow-Origin'', ''*''),
      (''Access-Control-Allow-Headers'',
       ''Content-Type,X-Amz-Date,Authorization,X-Api-Key,X-Amz-Security-Token''),
      (''Access-Control-Allow-Methods'', ''OPTIONS,POST'')]"
  by (intro conjI every_response_has_cors_headers)

text \<open>
  \<^bold>\<open>C5.\<close> An event with no \<^verbatim>\<open>body\<close>, with a body that is not a string of valid
  JSON, or with a body whose JSON has no \<^verbatim>\<open>message\<close> key gets status 500 and the body
  \<^verbatim>\<open>{success: false, error: <string>}\<close>. And for every event the handler returns a
  response, with status 200 or with status 500 and that error body: no exception leaves
  it.
\<close>

theorem malformed_request_returns_500:
  assumes "(\<forall>ev. event = PDict ev \<longrightarrow> map_of ev ''body'' = None)
     \<or> (\<exists>ev b. event = PDict ev \<and> map_of ev ''body'' = Some b
           \<and> (\<forall>s. b = PStr s \<longrightarrow> (\<exists>e. json_loads env s = Inl e)))
     \<or> (\<exists>ev s p. event = PDict ev \<and> map_of ev ''body'' = Some (PStr s)
           \<and> json_loads env s = Inr p
           \<and> (\<forall>kvs. p = PDict kvs \<longrightarrow> map_of kvs ''message'' = None))"
  shows "(\<exists>msg. snd (lambda_handler env event ctx w) =
            \<lparr>statusCode = 500,
             headers =
               [(''Content-Type'', ''application/json''),
                (''Access-Control-Allow-Origin'', ''*''),
                (''Access-Control-Allow-Headers'',
                 ''Content-Type,X-Amz-Date,Authorization,X-Api-Key,X-Amz-Security-Token''),
                (''Access-Control-Allow-Methods'', ''OPTIONS,POST'')],
             body = json_dumps env
               (PDict [(''success'', PBool False), (''error'', PStr msg)])\<rparr>)
     \<and> (\<forall>event'. statusCode (snd (lambda_handler env event' ctx w)) = 200
           \<or> (\<exists>msg. snd (lambda_handler env event' ctx w) =
            \<lparr>statusCode = 500,
             headers =
               [(''Content-Type'', ''application/json''),
                (''Access-Control-Allow-Origin'', ''*''),
                (''Access-Control-Allow-Headers'',
                 ''Content-Type,X-Amz-Date,Authorization,X-Api-Key,X-Amz-Security-Token''),
                (''Access-Control-Allow-Methods'', ''OPTIONS,POST'')],
             body = json_dumps env
               (PDict [(''success'', PBool False), (''error'', PStr msg)])\<rparr>))"
proof
  have "\<not> (\<exists>ms. request_messages env event = Inr ms)"
  proof
    assume "\<exists>ms. request_messages env event = Inr ms"
    then obtain ms where "request_messages env event = Inr ms" ..
    from request_messages_Inr [OF this] obtain ev b kvs m where
      "event = PDict ev" "map_of ev ''body'' = Some (PStr b)"
      "json_loads env b = Inr (PDict kvs)" "map_of kvs ''message'' = Some m"
      by blast
    with assms show False by auto
  qed
  then obtain e where "request_messages env event = Inl e"
    using request_messages_total [of env event] by blast
  from no_messages_error [OF this] obtain e' where
    "snd (lambda_handler env event ctx w) = error_response env e'" ..
  then show "\<exists>msg. snd (lambda_handler env event ctx w) =
            \<lparr>statusCode = 500,
             headers =
               [(''Content-Type'', ''application/json''),
                (''Access-Control-Allow-Origin'', ''*''),
                (''Access-Control-Allow-Headers'',
                 ''Content-Type,X-Amz-Date,Authorization,X-Api-Key,X-Amz-Security-Token''),
                (''Access-Control-Allow-Methods'', ''OPTIONS,POST'')],
             body = json_dumps env
               (PDict [(''success'', PBool False), (''error'', PStr msg)])\<rparr>"
    unfolding error_response_literal by blast
next
  show "\<forall>event'. statusCode (snd (lambda_handler env event' ctx w)) = 200
           \<or> (\<exists>msg. snd (lambda_handler env event' ctx w) =
            \<lparr>statusCode = 500,
             headers =
               [(''Content-Type'', ''application/json''),
                (''Access-Control-Allow-Origin'', ''*''),
                (''Access-Control-Allow-Headers'',
                 ''Content-Type,X-Amz-Date,Authorization,X-Api-Key,X-Amz-Security-Token''),
                (''Access-Control-Allow-Methods'', ''OPTIONS,POST'')],
             body = json_dumps env
               (PDict [(''success'', PBool False), (''error'', PStr msg)])\<rparr>)"
  proof
    fix event'
    from response_forms [of env event' ctx w]
    show "statusCode (snd (lambda_handler env event' ctx w)) = 200
           \<or> (\<exists>msg. snd (lambda_handler env event' ctx w) =
            \<lparr>statusCode = 500,
             headers =
               [(''Content-Type'', ''application/json''),
                (''Access-Control-Allow-Origin'', ''*''),
                (''Access-Control-Allow-Headers'',
                 ''Content-Type,X-Amz-Date,Authorization,X-Api-Key,X-Amz-Security-Token''),
                (''Access-Control-Allow-Methods'', ''OPTIONS,POST'')],
             body = json_dumps env
               (PDict [(''success'', PBool False), (''error'', PStr msg)])\<rparr>)"
    proof
      assume "\<exists>a ms. snd (lambda_handler env event' ctx w) = success_response env a ms"
      then show ?thesis by (auto simp: statusCode_success)
    next
      assume "\<exists>e. snd (lambda_handler env event' ctx w) = error_response env e"
      then show ?thesis unfolding error_response_literal by blast
    qed
  qed
qed

text \<open>
  An event without a body, a body that does not parse, and a body without a message.
\<close>

theorem malformed_request_examples:
  "statusCode (snd (lambda_handler
       (test_env [PDict [(''conversationHistory'', PList [])]] 200
          (PDict [(''generated_text'', PStr ''X'')]))
       (PDict []) test_context fresh_world)) = 500
   \<and> statusCode (snd (lambda_handler
       (test_env [PDict [(''conversationHistory'', PList [])]] 200
          (PDict [(''generated_text'', PStr ''X'')]))
       (PDict [(''body'', PStr ''{'')]) test_context fresh_world)) = 500
   \<and> statusCode (snd (lambda_handler
       (test_env [PDict [(''conversationHistory'', PList [])]] 200
          (PDict [(''generated_text'', PStr ''X'')]))
       (event_with_body (PDict [(''conversationHistory'', PList [])]))
       test_context fresh_world)) = 500"
proof -
  let ?E = "test_env [PDict [(''conversationHistory'', PList [])]] 200
          (PDict [(''generated_text'', PStr ''X'')])"
  have l1: "json_loads ?E ''{'' = Inl (Exn LibraryError ''Expecting value: line 1 column 1 (char 0)'')"
    by code_simp
  have l2: "json_loads ?E (show_json (PDict [(''conversationHistory'', PList [])]))
             = Inr (PDict [(''conversationHistory'', PList [])])"
    by code_simp
  have h1: "(\<forall>ev. PDict [] = PDict ev \<longrightarrow> map_of ev ''body'' = None)
     \<or> (\<exists>ev b. PDict [] = PDict ev \<and> map_of ev ''body'' = Some b
           \<and> (\<forall>s. b = PStr s \<longrightarrow> (\<exists>e. json_loads ?E s = Inl e)))
     \<or> (\<exists>ev s p. PDict [] = PDict ev \<and> map_of ev ''body'' = Some (PStr s)
           \<and> json_loads ?E s = Inr p
           \<and> (\<forall>kvs. p = PDict kvs \<longrightarrow> map_of kvs ''message'' = None))"
    by simp
  have h2: "(\<forall>ev. PDict [(''body'', PStr ''{'')] = PDict ev \<longrightarrow> map_of ev ''body'' = None)
     \<or> (\<exists>ev b. PDict [(''body'', PStr ''{'')] = PDict ev \<and> map_of ev ''body'' = Some b
           \<and> (\<forall>s. b = PStr s \<longrightarrow> (\<exists>e. json_loads ?E s = Inl e)))
     \<or> (\<exists>ev s p. PDict [(''body'', PStr ''{'')] = PDict ev \<and> map_of ev ''body'' = Some (PStr s)
           \<and> json_loads ?E s = Inr p
           \<and> (\<forall>kvs. p = PDict kvs \<longrightarrow> map_of kvs ''message'' = None))"
    using l1 by simp
  have h3: "(\<forall>ev. event_with_body (PDict [(''conversationHistory'', PList [])]) = PDict ev
                \<longrightarrow> map_of ev ''body'' = None)
     \<or> (\<exists>ev b. event_with_body (PDict [(''conversationHistory'', PList [])]) = PDict ev
           \<and> map_of ev ''body'' = Some b
           \<and> (\<forall>s. b = PStr s \<longrightarrow> (\<exists>e. json_loads ?E s = Inl e)))
     \<or> (\<exists>ev s p. event_with_body (PDict [(''conversationHistory'', PList [])]) = PDict ev
           \<and> map_of ev ''body'' = Some (PStr s)
           \<and> json_loads ?E s = Inr p
           \<and> (\<forall>kvs. p = PDict kvs \<longrightarrow> map_of kvs ''message'' = None))"
    using l2 unfolding event_with_body_def by simp
  from malformed_request_returns_500 [OF h1, of test_context fresh_world]
    malformed_request_returns_500 [OF h2, of test_context fresh_world]
    malformed_request_returns_500 [OF h3, of test_context fresh_world]
  show ?thesis by auto
qed

text \<open>
  \<^bold>\<open>C10.\<close> An event whose \<^verbatim>\<open>requestContext\<close> has an \<^verbatim>\<open>authorizer\<close> object without
  the key \<^verbatim>\<open>claims\<close> gets the 500 error response, and no request goes out; when the
  client could be made, the error text is the one of the \<^verbatim>\<open>KeyError\<close>, the key in
  quotes.
\<close>

theorem authorizer_without_claims_fails:
  assumes "event = PDict ev"
    and "map_of ev ''requestContext'' = Some (PDict rc)"
    and "map_of rc ''authorizer'' = Some (PDict a)"
    and "map_of a ''claims'' = None"
  shows "\<exists>msg. snd (lambda_handler env event ctx w) =
            \<lparr>statusCode = 500,
             headers =
               [(''Content-Type'', ''application/json''),
                (''Access-Control-Allow-Origin'', ''*''),
                (''Access-Control-Allow-Headers'',
                 ''Content-Type,X-Amz-Date,Authorization,X-Api-Key,X-Amz-Security-Token''),
                (''Access-Control-Allow-Methods'', ''OPTIONS,POST'')],
             body = json_dumps env
               (PDict [(''success'', PBool False), (''error'', PStr msg)])\<rparr>
        \<and> ((\<exists>w1. init_client env ctx w = Inr w1) \<longrightarrow> msg = quoted ''claims'')
        \<and> outbound (fst (lambda_handler env event ctx w)) = outbound w"
proof -
  have u: "get_user_info event = Inl (Exn KeyError (quoted ''claims''))"
    using assms by (simp add: get_user_info_def py_in_def py_getitem_def)
  show ?thesis
  proof (cases "init_client env ctx w")
    case (Inl e)
    have "lambda_handler env event ctx w = (w, error_response env e)"
      using Inl by (rule handler_init_fail)
    then show ?thesis
      unfolding error_response_literal using Inl
      by (intro exI [of _ "str_exn e"]) simp
  next
    case (Inr w1)
    have "lambda_handler env event ctx w =
            (w1, error_response env (Exn KeyError (quoted ''claims'')))"
      using Inr u by (rule handler_user_fail)
    then show ?thesis
      unfolding error_response_literal using init_client_outbound [OF Inr]
      by (intro exI [of _ "quoted ''claims''"]) simp
  qed
qed

text \<open>
  The body of this event is a well-formed request; the authorizer alone fails it.
\<close>

theorem authorizer_without_claims_example:
  "snd (lambda_handler
       (test_env [PDict [(''message'', PList [PDict [(''text'', PStr ''hi'')]])]] 200
          (PDict [(''generated_text'', PStr ''X'')]))
       (PDict [(''requestContext'', PDict [(''authorizer'', PDict [])]),
               (''body'', PStr (show_json
                   (PDict [(''message'', PList [PDict [(''text'', PStr ''hi'')]])])))])
       test_context fresh_world) =
     \<lparr>statusCode = 500,
      headers =
        [(''Content-Type'', ''application/json''),
         (''Access-Control-Allow-Origin'', ''*''),
         (''Access-Control-Allow-Headers'',
          ''Content-Type,X-Amz-Date,Authorization,X-Api-Key,X-Amz-Security-Token''),
         (''Access-Control-Allow-Methods'', ''OPTIONS,POST'')],
      body = show_json
        (PDict [(''success'', PBool False), (''error'', PStr (quoted ''claims''))])\<rparr>"
proof -
  let ?E = "test_env [PDict [(''message'', PList [PDict [(''text'', PStr ''hi'')]])]] 200
          (PDict [(''generated_text'', PStr ''X'')])"
  let ?ev = "[(''requestContext'', PDict [(''authorizer'', PDict [])]),
               (''body'', PStr (show_json
                   (PDict [(''message'', PList [PDict [(''text'', PStr ''hi'')]])])))]"
  have a: "map_of ?ev ''requestContext'' = Some (PDict [(''authorizer'', PDict [])])"
    by simp
  have b: "map_of [(''authorizer'', PDict [])] ''authorizer'' = Some (PDict [])"
    by simp
  have c: "map_of ([] :: (string \<times> pyval) list) ''claims'' = None"
    by simp
  have i: "\<exists>w1. init_client ?E test_context fresh_world = Inr w1"
    by (simp add: init_client_def test_env_def fresh_world_def)
  have d: "json_dumps ?E = show_json"
    by (simp add: test_env_def)
  from authorizer_without_claims_fails [OF refl a b c, of ?E test_context fresh_world] i
  show ?thesis unfolding d by auto
qed

section \<open>The outbound request\<close>

text \<open>
  \<^bold>\<open>C6.\<close> When the request of an invocation is answered with a status other than
  200, the handler returns the error response, and its text holds the status in decimal:
  for a status from 201 to 299 it is \<^verbatim>\<open>API error: \<close> followed by the status, the
  exception of line 38; for every other status it is the text of the \<^verbatim>\<open>HTTPError\<close> that
  \<^verbatim>\<open>urlopen\<close> raises, \<^verbatim>\<open>HTTP Error \<close>, the status, a colon and the reason phrase.
\<close>

theorem upstream_non_200_reports_status:
  assumes "outbound (fst (lambda_handler env event ctx w)) = outbound w @ [req]"
    and "http_exchange env req = Inr resp"
    and "status resp \<noteq> 200"
  shows "snd (lambda_handler env event ctx w) =
            \<lparr>statusCode = 500,
             headers =
               [(''Content-Type'', ''application/json''),
                (''Access-Control-Allow-Origin'', ''*''),
                (''Access-Control-Allow-Headers'',
                 ''Content-Type,X-Amz-Date,Authorization,X-Api-Key,X-Amz-Security-Token''),
                (''Access-Control-Allow-Methods'', ''OPTIONS,POST'')],
             body = json_dumps env
               (PDict [(''success'', PBool False),
                       (''error'', PStr
                          (if 200 \<le> status resp \<and> status resp < 300
                           then ''API error: '' @ str_int (status resp)
                           else ''HTTP Error '' @ str_int (status resp) @ '': ''
                                @ reason resp))])\<rparr>"
proof -
  from outbound_unchanged_or_one [of env event ctx w]
  show ?thesis
  proof
    assume "outbound (fst (lambda_handler env event ctx w)) = outbound w"
    with assms(1) show ?thesis by simp
  next
    assume "\<exists>messages prompt. request_messages env event = Inr messages
         \<and> build_prompt messages = Inr prompt
         \<and> outbound (fst (lambda_handler env event ctx w)) =
             outbound w @ [\<lparr>req_url = API_URL @ ''/generate'',
                            req_data = json_dumps env (request_payload prompt),
                            req_headers = [(''Content-Type'', ''application/json'')],
                            req_method = ''POST''\<rparr>]
         \<and> snd (lambda_handler env event ctx w) =
             (case (case urlopen env \<lparr>req_url = API_URL @ ''/generate'',
                            req_data = json_dumps env (request_payload prompt),
                            req_headers = [(''Content-Type'', ''application/json'')],
                            req_method = ''POST''\<rparr> of
                      Inl e \<Rightarrow> Inl e
                    | Inr resp \<Rightarrow>
                        if status resp \<noteq> 200
                        then Inl (Exn Exception (''API error: '' @ str_int (status resp)))
                        else (case read resp of Inl e \<Rightarrow> Inl e | Inr s \<Rightarrow> json_loads env s)) of
                Inl e \<Rightarrow> error_response env e
              | Inr result \<Rightarrow>
                 (case finish env messages result of
                    Inl e \<Rightarrow> error_response env e
                  | Inr r \<Rightarrow> r))"
    then obtain messages prompt where
      o: "outbound (fst (lambda_handler env event ctx w)) =
             outbound w @ [\<lparr>req_url = API_URL @ ''/generate'',
                            req_data = json_dumps env (request_payload prompt),
                            req_headers = [(''Content-Type'', ''application/json'')],
                            req_method = ''POST''\<rparr>]"
      and r: "snd (lambda_handler env event ctx w) =
             (case (case urlopen env \<lparr>req_url = API_URL @ ''/generate'',
                            req_data = json_dumps env (request_payload prompt),
                            req_headers = [(''Content-Type'', ''application/json'')],
                            req_method = ''POST''\<rparr> of
                      Inl e \<Rightarrow> Inl e
                    | Inr resp \<Rightarrow>
                        if status resp \<noteq> 200
                        then Inl (Exn Exception (''API error: '' @ str_int (status resp)))
                        else (case read resp of Inl e \<Rightarrow> Inl e | Inr s \<Rightarrow> json_loads env s)) of
                Inl e \<Rightarrow> error_response env e
              | Inr result \<Rightarrow>
                 (case finish env messages result of
                    Inl e \<Rightarrow> error_response env e
                  | Inr r \<Rightarrow> r))"
      by blast
    from o assms(1) have q: "\<lparr>req_url = API_URL @ ''/generate'',
                            req_data = json_dumps env (request_payload prompt),
                            req_headers = [(''Content-Type'', ''application/json'')],
                            req_method = ''POST''\<rparr> = req" by simp
    show ?thesis
    proof (cases "200 \<le> status resp \<and> status resp < 300")
      case True
      then have "urlopen env req = Inr resp"
        using assms(2) by (simp add: urlopen_def)
      with assms(3) r have "snd (lambda_handler env event ctx w) =
          error_response env (Exn Exception (''API error: '' @ str_int (status resp)))"
        unfolding q by simp
      moreover have "(if 200 \<le> status resp \<and> status resp < 300
             then ''API error: '' @ str_int (status resp)
             else ''HTTP Error '' @ str_int (status resp) @ '': '' @ reason resp)
          = ''API error: '' @ str_int (status resp)"
        using True by (rule if_P)
      ultimately show ?thesis by (simp only: error_response_literal str_exn.simps)
    next
      case False
      then have "urlopen env req =
          Inl (Exn HTTPError (''HTTP Error '' @ str_int (status resp) @ '': '' @ reason resp))"
        using assms(2) by (simp add: urlopen_def)
      with r have "snd (lambda_handler env event ctx w) =
          error_response env
            (Exn HTTPError (''HTTP Error '' @ str_int (status resp) @ '': '' @ reason resp))"
        unfolding q by simp
      moreover have "(if 200 \<le> status resp \<and> status resp < 300
             then ''API error: '' @ str_int (status resp)
             else ''HTTP Error '' @ str_int (status resp) @ '': '' @ reason resp)
          = ''HTTP Error '' @ str_int (status resp) @ '': '' @ reason resp"
        using False by (rule if_not_P)
      ultimately show ?thesis by (simp only: error_response_literal str_exn.simps)
    qed
  qed
qed

text \<open>
  The endpoint answers 404, and the endpoint answers 201.
\<close>

theorem upstream_status_examples:
  "snd (lambda_handler
       (test_env [PDict [(''message'', PList [PDict [(''text'', PStr ''hi'')]])]] 404
          (PDict [(''detail'', PStr ''Not Found'')]))
       (event_with_body (PDict [(''message'', PList [PDict [(''text'', PStr ''hi'')]])]))
       test_context fresh_world) =
     \<lparr>statusCode = 500,
      headers =
        [(''Content-Type'', ''application/json''),
         (''Access-Control-Allow-Origin'', ''*''),
         (''Access-Control-Allow-Headers'',
          ''Content-Type,X-Amz-Date,Authorization,X-Api-Key,X-Amz-Security-Token''),
         (''Access-Control-Allow-Methods'', ''OPTIONS,POST'')],
      body = show_json
        (PDict [(''success'', PBool False),
                (''error'', PStr ''HTTP Error 404: Not Found'')])\<rparr>
   \<and> snd (lambda_handler
       (test_env [PDict [(''message'', PList [PDict [(''text'', PStr ''hi'')]])]] 201
          (PDict [(''generated_text'', PStr ''X'')]))
       (event_with_body (PDict [(''message'', PList [PDict [(''text'', PStr ''hi'')]])]))
       test_context fresh_world) =
     \<lparr>statusCode = 500,
      headers =
        [(''Content-Type'', ''application/json''),
         (''Access-Control-Allow-Origin'', ''*''),
         (''Access-Control-Allow-Headers'',
          ''Content-Type,X-Amz-Date,Authorization,X-Api-Key,X-Amz-Security-Token''),
         (''Access-Control-Allow-Methods'', ''OPTIONS,POST'')],
      body = show_json
        (PDict [(''success'', PBool False), (''error'', PStr ''API error: 201'')])\<rparr>"
proof -
  let ?B = "PDict [(''message'', PList [PDict [(''text'', PStr ''hi'')]])]"
  let ?E = "test_env [?B] 404 (PDict [(''detail'', PStr ''Not Found'')])"
  let ?F = "test_env [?B] 201 (PDict [(''generated_text'', PStr ''X'')])"
  let ?req = "\<lparr>req_url = ''https://a814-35-196-164-95.ngrok-free.app/generate'',
      req_data = show_json (request_payload
        (preamble_line1 @ newline @ preamble_line2 @ newline
         @ user_label @ '': hi'' @ newline @ assistant_label @ '': '')),
      req_headers = [(''Content-Type'', ''application/json'')],
      req_method = ''POST''\<rparr>"
  let ?r404 = "\<lparr>status = 404, reason = ''Not Found'',
      read = Inr (show_json (PDict [(''detail'', PStr ''Not Found'')]))\<rparr>"
  let ?r201 = "\<lparr>status = 201, reason = ''Created'',
      read = Inr (show_json (PDict [(''generated_text'', PStr ''X'')]))\<rparr>"
  have o: "outbound (fst (lambda_handler ?E (event_with_body ?B) test_context fresh_world))
             = outbound fresh_world @ [?req]"
    by code_simp
  have u: "http_exchange ?E ?req = Inr ?r404"
    by (simp add: test_env_def reason_phrase_def)
  have s: "status ?r404 \<noteq> 200" by simp
  have d: "json_dumps ?E = show_json"
    by (simp add: test_env_def)
  have n: "str_int 404 = ''404''" by code_simp
  have o': "outbound (fst (lambda_handler ?F (event_with_body ?B) test_context fresh_world))
             = outbound fresh_world @ [?req]"
    by code_simp
  have u': "http_exchange ?F ?req = Inr ?r201"
    by (simp add: test_env_def reason_phrase_def)
  have s': "status ?r201 \<noteq> 200" by simp
  have d': "json_dumps ?F = show_json"
    by (simp add: test_env_def)
  have n': "str_int 201 = ''201''" by code_simp
  from upstream_non_200_reports_status [OF o u s]
  have 1: "snd (lambda_handler ?E (event_with_body ?B) test_context fresh_world) =
     \<lparr>statusCode = 500,
      headers =
        [(''Content-Type'', ''application/json''),
         (''Access-Control-Allow-Origin'', ''*''),
         (''Access-Control-Allow-Headers'',
          ''Content-Type,X-Amz-Date,Authorization,X-Api-Key,X-Amz-Security-Token''),
         (''Access-Control-Allow-Methods'', ''OPTIONS,POST'')],
      body = show_json
        (PDict [(''success'', PBool False),
                (''error'', PStr ''HTTP Error 404: Not Found'')])\<rparr>"
    unfolding d by (simp add: n)
  from upstream_non_200_reports_status [OF o' u' s']
  have 2: "snd (lambda_handler ?F (event_with_body ?B) test_context fresh_world) =
     \<lparr>statusCode = 500,
      headers =
        [(''Content-Type'', ''application/json''),
         (''Access-Control-Allow-Origin'', ''*''),
         (''Access-Control-Allow-Headers'',
          ''Content-Type,X-Amz-Date,Authorization,X-Api-Key,X-Amz-Security-Token''),
         (''Access-Control-Allow-Methods'', ''OPTIONS,POST'')],
      body = show_json
        (PDict [(''success'', PBool False), (''error'', PStr ''API error: 201'')])\<rparr>"
    unfolding d' by (simp add: n')
  from 1 2 show ?thesis by (rule conjI)
qed

text \<open>
  \<^bold>\<open>C8.\<close> An invocation hands at most one request to \<^verbatim>\<open>urlopen\<close>, and exactly one
  when the steps before the call succeed. The request is a POST to the base URL followed
  by \<^verbatim>\<open>/generate\<close>, with the header \<^verbatim>\<open>Content-Type: application/json\<close>; its body is the
  JSON of the built prompt together with \<^verbatim>\<open>max_new_tokens = 512\<close>,
  \<^verbatim>\<open>temperature = 0.7\<close>, \<^verbatim>\<open>top_p = 0.9\<close> and \<^verbatim>\<open>do_sample = true\<close>.
\<close>

theorem outbound_request_shape:
  "(outbound (fst (lambda_handler env event ctx w)) = outbound w
    \<or> (\<exists>messages prompt. request_messages env event = Inr messages
          \<and> build_prompt messages = Inr prompt
          \<and> outbound (fst (lambda_handler env event ctx w)) =
              outbound w @
                [\<lparr>req_url = API_URL @ ''/generate'',
                  req_data = json_dumps env
                    (PDict [(''prompt'', PStr prompt),
                            (''max_new_tokens'', PInt 512),
                            (''temperature'', PFloat ''0.7''),
                            (''top_p'', PFloat ''0.9''),
                            (''do_sample'', PBool True)]),
                  req_headers = [(''Content-Type'', ''application/json'')],
                  req_method = ''POST''\<rparr>]))
   \<and> (\<forall>w1 ui messages prompt.
         init_client env ctx w = Inr w1 \<and> get_user_info event = Inr ui
         \<and> request_messages env event = Inr messages \<and> build_prompt messages = Inr prompt
         \<longrightarrow> outbound (fst (lambda_handler env event ctx w)) =
              outbound w @
                [\<lparr>req_url = API_URL @ ''/generate'',
                  req_data = json_dumps env
                    (PDict [(''prompt'', PStr prompt),
                            (''max_new_tokens'', PInt 512),
                            (''temperature'', PFloat ''0.7''),
                            (''top_p'', PFloat ''0.9''),
                            (''do_sample'', PBool True)]),
                  req_headers = [(''Content-Type'', ''application/json'')],
                  req_method = ''POST''\<rparr>])
   \<and> API_URL = ''https://a814-35-196-164-95.ngrok-free.app''"
proof (intro conjI allI impI)
  show "outbound (fst (lambda_handler env event ctx w)) = outbound w
    \<or> (\<exists>messages prompt. request_messages env event = Inr messages
          \<and> build_prompt messages = Inr prompt
          \<and> outbound (fst (lambda_handler env event ctx w)) =
              outbound w @
                [\<lparr>req_url = API_URL @ ''/generate'',
                  req_data = json_dumps env
                    (PDict [(''prompt'', PStr prompt),
                            (''max_new_tokens'', PInt 512),
                            (''temperature'', PFloat ''0.7''),
                            (''top_p'', PFloat ''0.9''),
                            (''do_sample'', PBool True)]),
                  req_headers = [(''Content-Type'', ''application/json'')],
                  req_method = ''POST''\<rparr>])"
    using outbound_unchanged_or_one [of env event ctx w]
    unfolding request_payload_def by blast
next
  fix w1 ui messages prompt
  assume a: "init_client env ctx w = Inr w1 \<and> get_user_info event = Inr ui
         \<and> request_messages env event = Inr messages \<and> build_prompt messages = Inr prompt"
  then have "lambda_handler env event ctx w =
          (fst (invoke_model env (request_payload prompt) w1),
           case snd (invoke_model env (request_payload prompt) w1) of
             Inl e \<Rightarrow> error_response env e
           | Inr result \<Rightarrow>
               (case finish env messages result of
                  Inl e \<Rightarrow> error_response env e
                | Inr r \<Rightarrow> r))"
    using handler_invoke by blast
  moreover have "outbound w1 = outbound w" using a init_client_outbound by blast
  ultimately show "outbound (fst (lambda_handler env event ctx w)) =
              outbound w @
                [\<lparr>req_url = API_URL @ ''/generate'',
                  req_data = json_dumps env
                    (PDict [(''prompt'', PStr prompt),
                            (''max_new_tokens'', PInt 512),
                            (''temperature'', PFloat ''0.7''),
                            (''top_p'', PFloat ''0.9''),
                            (''do_sample'', PBool True)]),
                  req_headers = [(''Content-Type'', ''application/json'')],
                  req_method = ''POST''\<rparr>]"
    by (simp add: invoke_model_outbound request_payload_def)
next
  show "API_URL = ''https://a814-35-196-164-95.ngrok-free.app''"
    by (simp add: API_URL_def rstrip_chars_def)
qed

text \<open>
  The request of an invocation whose message is a list of content items.
\<close>

theorem outbound_request_example:
  "outbound (fst (lambda_handler
       (test_env [PDict [(''message'', PList [PDict [(''text'', PStr ''hi'')]])]] 200
          (PDict [(''generated_text'', PStr ''X'')]))
       (event_with_body (PDict [(''message'', PList [PDict [(''text'', PStr ''hi'')]])]))
       test_context fresh_world)) =
     [\<lparr>req_url = ''https://a814-35-196-164-95.ngrok-free.app/generate'',
       req_data = show_json
         (PDict [(''prompt'', PStr (preamble_line1 @ newline @ preamble_line2 @ newline
                    @ user_label @ '': hi'' @ newline @ assistant_label @ '': '')),
                 (''max_new_tokens'', PInt 512),
                 (''temperature'', PFloat ''0.7''),
                 (''top_p'', PFloat ''0.9''),
                 (''do_sample'', PBool True)]),
       req_headers = [(''Content-Type'', ''application/json'')],
       req_method = ''POST''\<rparr>]"
proof -
  let ?E = "test_env [PDict [(''message'', PList [PDict [(''text'', PStr ''hi'')]])]] 200
          (PDict [(''generated_text'', PStr ''X'')])"
  let ?ev = "event_with_body (PDict [(''message'', PList [PDict [(''text'', PStr ''hi'')]])])"
  let ?ms = "PList [PDict [(''role'', PStr ''user''),
                           (''content'', PList [PDict [(''text'', PStr ''hi'')]])]]"
  let ?p = "preamble_line1 @ newline @ preamble_line2 @ newline
                    @ user_label @ '': hi'' @ newline @ assistant_label @ '': ''"
  have i: "init_client ?E test_context fresh_world =
             Inr \<lparr>bedrock_client = Some (Client ''bedrock-runtime'' ''ap-northeast-1''),
                  outbound = []\<rparr>"
    by code_simp
  have g: "get_user_info ?ev = Inr PNone" by code_simp
  have r: "request_messages ?E ?ev = Inr ?ms" by code_simp
  have b: "build_prompt ?ms = Inr ?p" by code_simp
  have d: "json_dumps ?E = show_json"
    by (simp add: test_env_def)
  have u: "API_URL = ''https://a814-35-196-164-95.ngrok-free.app''"
    using outbound_request_shape [of ?E ?ev test_context fresh_world] by blast
  have "outbound (fst (lambda_handler ?E ?ev test_context fresh_world)) =
              outbound fresh_world @
                [\<lparr>req_url = API_URL @ ''/generate'',
                  req_data = json_dumps ?E
                    (PDict [(''prompt'', PStr ?p),
                            (''max_new_tokens'', PInt 512),
                            (''temperature'', PFloat ''0.7''),
                            (''top_p'', PFloat ''0.9''),
                            (''do_sample'', PBool True)]),
                  req_headers = [(''Content-Type'', ''application/json'')],
                  req_method = ''POST''\<rparr>]"
    using outbound_request_shape [of ?E ?ev test_context fresh_world] i g r b by blast
  then show ?thesis unfolding d u by (simp add: fresh_world_def)
qed

section \<open>The message as the handler appends it\<close>

text \<open>
  \<^bold>\<open>C2\<close>, as amended. When the parsed body has a \<^verbatim>\<open>message\<close> that is a non-empty
  string, the handler returns the 500 error response. A response with status 200 is
  possible only when the message is the empty string, the empty object, or a list of
  dicts.
\<close>

theorem string_message_never_succeeds:
  assumes "event = PDict ev"
    and "map_of ev ''body'' = Some (PStr b)"
    and "json_loads env b = Inr (PDict kvs)"
    and "map_of kvs ''message'' = Some m"
  shows "((\<exists>s. m = PStr s \<and> s \<noteq> []) \<longrightarrow>
           (\<exists>msg. snd (lambda_handler env event ctx w) =
            \<lparr>statusCode = 500,
             headers =
               [(''Content-Type'', ''application/json''),
                (''Access-Control-Allow-Origin'', ''*''),
                (''Access-Control-Allow-Headers'',
                 ''Content-Type,X-Amz-Date,Authorization,X-Api-Key,X-Amz-Security-Token''),
                (''Access-Control-Allow-Methods'', ''OPTIONS,POST'')],
             body = json_dumps env
               (PDict [(''success'', PBool False), (''error'', PStr msg)])\<rparr>))
     \<and> (statusCode (snd (lambda_handler env event ctx w)) = 200 \<longrightarrow>
           m = PStr [] \<or> m = PDict [] \<or> is_content_items m)"
proof -
  have ok: "m = PStr [] \<or> m = PDict [] \<or> is_content_items m"
    if "statusCode (snd (lambda_handler env event ctx w)) = 200"
  proof -
    from success_needs_prompt [OF that] obtain messages prompt where
      rm: "request_messages env event = Inr messages" and
      bp: "build_prompt messages = Inr prompt" by blast
    from request_messages_Inr [OF rm] obtain ev' b' kvs' m' hist where
      "event = PDict ev'" "map_of ev' ''body'' = Some (PStr b')"
      "json_loads env b' = Inr (PDict kvs')" "map_of kvs' ''message'' = Some m'"
      and ms: "messages = PList (hist @ [PDict [(''role'', PStr ''user''), (''content'', m')]])"
      by blast
    with assms have "m' = m" by simp
    with ms bp have "build_prompt (PList (hist @ [PDict [(''role'', PStr ''user''), (''content'', m)]])) = Inr prompt"
      by simp
    from build_prompt_last [OF this] obtain l where
      "turn_line (PDict [(''role'', PStr ''user''), (''content'', m)]) = Inr l" ..
    then show ?thesis by (rule turn_line_user_content)
  qed
  have bad: "\<exists>msg. snd (lambda_handler env event ctx w) =
            \<lparr>statusCode = 500,
             headers =
               [(''Content-Type'', ''application/json''),
                (''Access-Control-Allow-Origin'', ''*''),
                (''Access-Control-Allow-Headers'',
                 ''Content-Type,X-Amz-Date,Authorization,X-Api-Key,X-Amz-Security-Token''),
                (''Access-Control-Allow-Methods'', ''OPTIONS,POST'')],
             body = json_dumps env
               (PDict [(''success'', PBool False), (''error'', PStr msg)])\<rparr>"
    if "\<exists>s. m = PStr s \<and> s \<noteq> []"
  proof -
    from response_forms [of env event ctx w] show ?thesis
    proof
      assume "\<exists>a ms. snd (lambda_handler env event ctx w) = success_response env a ms"
      then have "statusCode (snd (lambda_handler env event ctx w)) = 200"
        by (auto simp: statusCode_success)
      from ok [OF this] that show ?thesis by auto
    next
      assume "\<exists>e. snd (lambda_handler env event ctx w) = error_response env e"
      then show ?thesis unfolding error_response_literal by blast
    qed
  qed
  show ?thesis using ok bad by blast
qed

text \<open>
  The message \<^verbatim>\<open>hello\<close> fails; a message that is a list of content items succeeds.
\<close>

theorem string_message_examples:
  "statusCode (snd (lambda_handler
       (test_env [PDict [(''message'', PStr ''hello'')]] 200
          (PDict [(''generated_text'', PStr ''X'')]))
       (event_with_body (PDict [(''message'', PStr ''hello'')]))
       test_context fresh_world)) = 500
   \<and> statusCode (snd (lambda_handler
       (test_env [PDict [(''message'', PList [PDict [(''text'', PStr ''hi'')]])]] 200
          (PDict [(''generated_text'', PStr ''X'')]))
       (event_with_body (PDict [(''message'', PList [PDict [(''text'', PStr ''hi'')]])]))
       test_context fresh_world)) = 200
   \<and> is_content_items (PList [PDict [(''text'', PStr ''hi'')]])"
proof -
  let ?B = "PDict [(''message'', PStr ''hello'')]"
  let ?E = "test_env [?B] 200 (PDict [(''generated_text'', PStr ''X'')])"
  let ?C = "PDict [(''message'', PList [PDict [(''text'', PStr ''hi'')]])]"
  let ?F = "test_env [?C] 200 (PDict [(''generated_text'', PStr ''X'')])"
  have e: "event_with_body ?B = PDict [(''body'', PStr (show_json ?B))]"
    by (simp only: event_with_body_def)
  have b: "map_of [(''body'', PStr (show_json ?B))] ''body'' = Some (PStr (show_json ?B))"
    by simp
  have l: "json_loads ?E (show_json ?B) = Inr (PDict [(''message'', PStr ''hello'')])"
    by code_simp
  have m: "map_of [(''message'', PStr ''hello'')] ''message'' = Some (PStr ''hello'')"
    by simp
  have e': "event_with_body ?C = PDict [(''body'', PStr (show_json ?C))]"
    by (simp only: event_with_body_def)
  have b': "map_of [(''body'', PStr (show_json ?C))] ''body'' = Some (PStr (show_json ?C))"
    by simp
  have l': "json_loads ?F (show_json ?C)
              = Inr (PDict [(''message'', PList [PDict [(''text'', PStr ''hi'')]])])"
    by code_simp
  have m': "map_of [(''message'', PList [PDict [(''text'', PStr ''hi'')]])] ''message''
              = Some (PList [PDict [(''text'', PStr ''hi'')]])"
    by simp
  have ok: "statusCode (snd (lambda_handler ?F (event_with_body ?C) test_context fresh_world)) = 200"
    by code_simp
  from string_message_never_succeeds [OF e b l m, of test_context fresh_world]
  have "statusCode (snd (lambda_handler ?E (event_with_body ?B) test_context fresh_world)) = 500"
    by auto
  moreover from string_message_never_succeeds [OF e' b' l' m', of test_context fresh_world] ok
  have "is_content_items (PList [PDict [(''text'', PStr ''hi'')]])"
    by auto
  ultimately show ?thesis using ok by simp
qed

text \<open>
  \<^bold>\<open>C2\<close> as stated allows success only for the empty string and for a sequence of
  dict-like items. The empty object is neither, and the handler answers 200 for it:
  iterating an empty dict yields nothing, as iterating an empty string does.
\<close>

theorem empty_object_message_succeeds:
  "json_loads (test_env [PDict [(''message'', PDict [])]] 200
                 (PDict [(''generated_text'', PStr ''X'')]))
      (show_json (PDict [(''message'', PDict [])])) = Inr (PDict [(''message'', PDict [])])
   \<and> statusCode (snd (lambda_handler
       (test_env [PDict [(''message'', PDict [])]] 200
          (PDict [(''generated_text'', PStr ''X'')]))
       (PDict [(''body'', PStr (show_json (PDict [(''message'', PDict [])])))])
       test_context fresh_world)) = 200
   \<and> PDict [] \<noteq> PStr []
   \<and> \<not> is_content_items (PDict [])"
proof -
  have "json_loads (test_env [PDict [(''message'', PDict [])]] 200
                 (PDict [(''generated_text'', PStr ''X'')]))
      (show_json (PDict [(''message'', PDict [])])) = Inr (PDict [(''message'', PDict [])])"
    by code_simp
  moreover have "statusCode (snd (lambda_handler
       (test_env [PDict [(''message'', PDict [])]] 200
          (PDict [(''generated_text'', PStr ''X'')]))
       (PDict [(''body'', PStr (show_json (PDict [(''message'', PDict [])])))])
       test_context fresh_world)) = 200"
    by code_simp
  ultimately show ?thesis by simp
qed

text \<open>
  \<^bold>\<open>C1.\<close> The handler at a body whose message is the empty string, the endpoint
  answering with the generated text \<^verbatim>\<open>X\<close>: the history it returns holds the message and
  the answer as raw strings under \<^verbatim>\<open>content\<close>, not as lists of items with a \<^verbatim>\<open>text\<close>.
\<close>

theorem roundtrip_keeps_raw_content:
  "snd (lambda_handler
          (test_env [PDict [(''message'', PStr '''')]] 200
             (PDict [(''generated_text'', PStr ''X'')]))
          (event_with_body (PDict [(''message'', PStr '''')]))
          test_context fresh_world) =
     \<lparr>statusCode = 200,
      headers =
        [(''Content-Type'', ''application/json''),
         (''Access-Control-Allow-Origin'', ''*''),
         (''Access-Control-Allow-Headers'',
          ''Content-Type,X-Amz-Date,Authorization,X-Api-Key,X-Amz-Security-Token''),
         (''Access-Control-Allow-Methods'', ''OPTIONS,POST'')],
      body = show_json
        (PDict [(''success'', PBool True),
                (''response'', PStr ''X''),
                (''conversationHistory'',
                 PList [PDict [(''role'', PStr ''user''), (''content'', PStr '''')],
                        PDict [(''role'', PStr ''assistant''), (''content'', PStr ''X'')]])])\<rparr>"
  by code_simp

text \<open>
  \<^bold>\<open>C3.\<close> The handler at a body whose message is \<^verbatim>\<open>hello\<close> and no history: the list
  it passes to \<^verbatim>\<open>build_prompt\<close> holds the string itself as content, \<^verbatim>\<open>build_prompt\<close>
  raises on its first character, and the response is the error response; no request
  goes out.
\<close>

theorem string_message_builds_no_prompt:
  "request_messages
      (test_env [PDict [(''message'', PStr ''hello'')]] 200
         (PDict [(''generated_text'', PStr ''X'')]))
      (event_with_body (PDict [(''message'', PStr ''hello'')]))
     = Inr (PList [PDict [(''role'', PStr ''user''), (''content'', PStr ''hello'')]])
   \<and> build_prompt (PList [PDict [(''role'', PStr ''user''), (''content'', PStr ''hello'')]])
     = Inl (Exn AttributeError
              (quoted ''str'' @ '' object has no attribute '' @ quoted ''get''))
   \<and> lambda_handler
        (test_env [PDict [(''message'', PStr ''hello'')]] 200
           (PDict [(''generated_text'', PStr ''X'')]))
        (event_with_body (PDict [(''message'', PStr ''hello'')]))
        test_context fresh_world =
       (\<lparr>bedrock_client = Some (Client ''bedrock-runtime'' ''ap-northeast-1''),
         outbound = []\<rparr>,
        \<lparr>statusCode = 500,
         headers =
           [(''Content-Type'', ''application/json''),
            (''Access-Control-Allow-Origin'', ''*''),
            (''Access-Control-Allow-Headers'',
             ''Content-Type,X-Amz-Date,Authorization,X-Api-Key,X-Amz-Security-Token''),
            (''Access-Control-Allow-Methods'', ''OPTIONS,POST'')],
         body = show_json
           (PDict [(''success'', PBool False),
                   (''error'', PStr (quoted ''str'' @ '' object has no attribute ''
                                      @ quoted ''get''))])\<rparr>)"
  by code_simp

end
